theory Spec2Isabelle
  imports Complex_Main "HOL-Library.Char_ord" "HOL-Library.List_Lexorder"
begin

section \<open>The bandwidth visualizer: \<^verbatim>\<open>vis_bandwidth.py\<close>\<close>

text \<open>
  The program is one function, \<^verbatim>\<open>parse_bandwidth_csv(filepath, mode)\<close>, which
  reads a CSV with a two-row header through pandas, cleans it, derives six numeric series
  per socket and hands lines to matplotlib. The embedding follows the function from top to
  bottom. What belongs to the libraries is made explicit:
  \<^item> the outcome of \<^verbatim>\<open>pd.read_csv\<close> is the input (\<open>read_result\<close>);
  \<^item> what \<^verbatim>\<open>pd.to_datetime\<close> and \<^verbatim>\<open>pd.to_numeric\<close> make of a string are
    parameters (\<open>to_datetime\<close>, \<open>to_numeric\<close>), with \<open>None\<close> for what
    \<^verbatim>\<open>errors='coerce'\<close> turns into NaT or NaN;
  \<^item> the arithmetic of float64 (conversion from int64, addition, the sum of a column and
    the sum of a row, each with its rounding) is a parameter too (\<open>float_ops\<close>);
  \<^item> the arithmetic of int64 is written out: it wraps around;
  \<^item> the effects are returned: what is printed, the exit, and every \<^verbatim>\<open>plt.plot\<close>
    call with its arguments.
  A float64 value other than NaN is held as the real number it denotes (the infinities have
  no value here), one that can be NaN as a \<open>real option\<close>; a decimal literal that
  is not itself a float64, such as \<open>123.4\<close>, stands for the float64 nearest to it,
  as it does in Python. An int64 value is an \<open>int\<close>, and integers outside the int64
  range are outside the model.
\<close>

subsection \<open>Data\<close>

text \<open>
  The text of a cell is a Python \<^verbatim>\<open>str\<close>, held as the list of its code points;
  \<open>ustr\<close> gives the code points of an ASCII literal. Column labels are held as
  \<open>string\<close>: the program only looks for ASCII substrings and prefixes in them and sorts
  them.
\<close>

type_synonym ustring = "nat list"

abbreviation ustr :: "string \<Rightarrow> ustring" where
  "ustr s \<equiv> map of_char s"

text \<open>
  A cell of the frame that \<^verbatim>\<open>read_csv\<close> returns: missing (NaN), an integer (a column
  that parsed as int64), a float (a column that parsed as float64) or text (an object
  column).
\<close>

datatype cell = NaN | IntNum int | Num real | Str ustring

fun is_Num :: "cell \<Rightarrow> bool" where
  "is_Num (IntNum n) = True"
| "is_Num (Num x) = True"
| "is_Num _ = False"

fun is_Str :: "cell \<Rightarrow> bool" where
  "is_Str (Str s) = True"
| "is_Str _ = False"

type_synonym timestamp = int

text \<open>A column label of the two-row header: (outer level, inner level).\<close>

type_synonym colkey = "string \<times> string"

text \<open>
  The frame as read: the column labels and the data rows, each row holding one cell per
  column (\<^verbatim>\<open>read_csv\<close> returns a rectangular table with distinct labels).
\<close>

record frame =
  columns :: "colkey list"
  rows :: "cell list list"

datatype read_result = EmptyDataError | ReadError string | Frame frame

text \<open>
  The frame after \<^verbatim>\<open>set_index('Datetime')\<close>: every row carries its index entry
  (\<open>None\<close> is NaT) and its cells.
\<close>

record table =
  tcolumns :: "colkey list"
  trows :: "(timestamp option \<times> cell list) list"

text \<open>
  The ways the run ends early. All but the last print one line and call
  \<^verbatim>\<open>sys.exit(1)\<close>; \<open>IndexError\<close> is the uncaught exception of
  \<^verbatim>\<open>cols[0]\<close> or \<^verbatim>\<open>cols[1]\<close> on a header with fewer than two columns
  (a traceback, exit status 1).
\<close>

datatype failure =
    EmptyData
  | ParseFailure string
  | HeaderMismatch
  | DatetimeFailure
  | NoValidData
  | NoSockets
  | IndexError

fun message :: "failure \<Rightarrow> string" where
  "message EmptyData = ''Error: CSV file contains no data.''"
| "message (ParseFailure e) = ''Error parsing CSV: '' @ e"
| "message HeaderMismatch = ''Error: CSV header does not match expected format.''"
| "message DatetimeFailure = ''Error processing date/time: ''"
| "message NoValidData = ''Error: No valid data after cleaning.''"
| "message NoSockets = ''Error: No 'SKT' socket columns found in CSV.''"
| "message IndexError = ''IndexError: list index out of range''"

fun exit_status :: "failure \<Rightarrow> nat" where
  "exit_status f = 1"

subsection \<open>Strings\<close>

text \<open>\<^verbatim>\<open>s.startswith(p)\<close> and \<^verbatim>\<open>sub in s\<close>.\<close>

fun startswith :: "string \<Rightarrow> string \<Rightarrow> bool" where
  "startswith s [] = True"
| "startswith [] (p # ps) = False"
| "startswith (c # cs) (p # ps) = (c = p \<and> startswith cs ps)"

fun contains :: "string \<Rightarrow> string \<Rightarrow> bool" where
  "contains sub [] = (sub = [])"
| "contains sub (c # cs) = (startswith (c # cs) sub \<or> contains sub cs)"

text \<open>
  \<^verbatim>\<open>str.strip()\<close> removes the whitespace code points of Python at both ends: U+0009 to
  U+000D, U+001C to U+0020, U+0085, U+00A0, U+1680, U+2000 to U+200A, U+2028, U+2029,
  U+202F, U+205F and U+3000.
\<close>

definition is_space :: "nat \<Rightarrow> bool" where
  "is_space n =
     ((9 \<le> n \<and> n \<le> 13) \<or> (28 \<le> n \<and> n \<le> 32) \<or> n = 133 \<or> n = 160 \<or> n = 5760 \<or>
      (8192 \<le> n \<and> n \<le> 8202) \<or> n = 8232 \<or> n = 8233 \<or> n = 8239 \<or> n = 8287 \<or> n = 12288)"

definition strip :: "ustring \<Rightarrow> ustring" where
  "strip s = rev (dropWhile is_space (rev (dropWhile is_space s)))"

text \<open>\<^verbatim>\<open>sep.join(xs)\<close>.\<close>

fun join :: "string \<Rightarrow> string list \<Rightarrow> string" where
  "join sep [] = []"
| "join sep [x] = x"
| "join sep (x # y # ys) = x @ sep @ join sep (y # ys)"

subsection \<open>The normalizer (lines 23 to 50)\<close>

text \<open>
  Lines 23 to 30. Python evaluates \<^verbatim>\<open>'Date' in cols[0][1] and 'Time' in cols[1][1]\<close>
  from the left and stops at the first false operand, so \<^verbatim>\<open>cols[1]\<close> is read only
  when the first test holds.
\<close>

definition relabel_header :: "colkey list \<Rightarrow> failure + colkey list" where
  "relabel_header cols =
     (case cols of
        [] \<Rightarrow> Inl IndexError
      | [c0] \<Rightarrow> if contains ''Date'' (snd c0) then Inl IndexError else Inl HeaderMismatch
      | c0 # c1 # rest \<Rightarrow>
          if contains ''Date'' (snd c0) \<and> contains ''Time'' (snd c1)
          then Inr ((''Info'', ''Date'') # (''Info'', ''Time'') # rest)
          else Inl HeaderMismatch)"

text \<open>The cell of a row in column \<open>i\<close>; a rectangular frame has one in every column.\<close>

definition cell_at :: "cell list \<Rightarrow> nat \<Rightarrow> cell" where
  "cell_at row i = (if i < length row then row ! i else NaN)"

text \<open>
  Line 35, \<^verbatim>\<open>df[('Info','Date')] + ' ' + df[('Info','Time')]\<close>, one row: text joined
  with text; a missing operand gives a missing result.
\<close>

fun date_time :: "cell \<Rightarrow> cell \<Rightarrow> ustring option" where
  "date_time (Str d) (Str t) = Some (d @ ustr '' '' @ t)"
| "date_time _ _ = None"

text \<open>
  The same line raises TypeError (caught at line 39) when a number meets text: a date
  column of numeric type (numbers, or nothing but NaN in at least one row), or a number in
  the time column beside a date that is text.
\<close>

definition concat_raises :: "cell list \<Rightarrow> cell list \<Rightarrow> bool" where
  "concat_raises ds ts =
     (list_ex is_Num ds \<or> (ds \<noteq> [] \<and> list_all (\<lambda>c. c = NaN) ds) \<or>
      list_ex (\<lambda>(d, t). is_Str d \<and> is_Num t) (zip ds ts))"

text \<open>
  \<^verbatim>\<open>pd.to_datetime(..., errors='coerce')\<close>, one entry of the column it is given: a
  missing entry becomes NaT, and a string becomes what \<open>to_datetime\<close> says, the
  timestamp pandas reads from it in this column or NaT.
\<close>

definition row_timestamp :: "(ustring \<Rightarrow> timestamp option) \<Rightarrow> cell list \<Rightarrow> timestamp option" where
  "row_timestamp to_datetime row =
     (case date_time (cell_at row 0) (cell_at row 1) of
        None \<Rightarrow> None
      | Some s \<Rightarrow> to_datetime s)"

text \<open>Line 36: the new column becomes the row index.\<close>

definition set_index :: "(ustring \<Rightarrow> timestamp option) \<Rightarrow> colkey list \<Rightarrow> cell list list \<Rightarrow> table" where
  "set_index to_datetime cols rs =
     \<lparr>tcolumns = cols, trows = map (\<lambda>r. (row_timestamp to_datetime r, r)) rs\<rparr>"

text \<open>Line 37: every column whose outer label is \<^verbatim>\<open>Info\<close> goes, with its cells.\<close>

definition keep_cells :: "colkey list \<Rightarrow> cell list \<Rightarrow> cell list" where
  "keep_cells cols cs = map snd (filter (\<lambda>(k, c). fst k \<noteq> ''Info'') (zip cols cs))"

definition drop_info :: "table \<Rightarrow> table" where
  "drop_info t =
     \<lparr>tcolumns = filter (\<lambda>k. fst k \<noteq> ''Info'') (tcolumns t),
      trows = map (\<lambda>(ts, cs). (ts, keep_cells (tcolumns t) cs)) (trows t)\<rparr>"

text \<open>
  Line 38, \<^verbatim>\<open>dropna(axis=0, how='all')\<close>: a row goes when all its cells are missing.
  The index is not a cell: the test does not look at the timestamp.
\<close>

definition has_value :: "cell list \<Rightarrow> bool" where
  "has_value cs = list_ex (\<lambda>c. c \<noteq> NaN) cs"

definition dropna_all :: "table \<Rightarrow> table" where
  "dropna_all t = t\<lparr>trows := filter (\<lambda>(ts, cs). has_value cs) (trows t)\<rparr>"

text \<open>Line 43, \<^verbatim>\<open>df.empty\<close>: no rows or no columns.\<close>

definition df_empty :: "table \<Rightarrow> bool" where
  "df_empty t = (trows t = [] \<or> tcolumns t = [])"

text \<open>Line 47: the distinct outer labels that start with \<^verbatim>\<open>SKT\<close>, sorted.\<close>

definition detect_sockets :: "table \<Rightarrow> string list" where
  "detect_sockets t = sort (filter (\<lambda>s. startswith s ''SKT'') (remdups (map fst (tcolumns t))))"

definition clean :: "(ustring \<Rightarrow> timestamp option) \<Rightarrow> colkey list \<Rightarrow> cell list list \<Rightarrow> table" where
  "clean to_datetime cols rs = dropna_all (drop_info (set_index to_datetime cols rs))"

definition csv_normalizer :: "(ustring \<Rightarrow> timestamp option) \<Rightarrow> frame \<Rightarrow> failure + (table \<times> string list)" where
  "csv_normalizer to_datetime df =
     (case relabel_header (columns df) of
        Inl f \<Rightarrow> Inl f
      | Inr cols \<Rightarrow>
          if concat_raises (map (\<lambda>r. cell_at r 0) (rows df)) (map (\<lambda>r. cell_at r 1) (rows df))
          then Inl DatetimeFailure
          else
            let t = clean to_datetime cols (rows df) in
            if df_empty t then Inl NoValidData
            else
              let sockets = detect_sockets t in
              if sockets = [] then Inl NoSockets else Inr (t, sockets))"

subsection \<open>Numbers (the arithmetic of pandas and numpy)\<close>

text \<open>
  A number that \<^verbatim>\<open>pd.to_numeric\<close> reads, or the result of a sum: an int64 or a float64
  that is not NaN.
\<close>

datatype number = IntVal int | FloatVal real

text \<open>
  A numeric column with its dtype. An int64 column has no missing entry; in a float64 column
  \<open>None\<close> is NaN.
\<close>

datatype series = Int64 "int list" | Float64 "real option list"

fun series_len :: "series \<Rightarrow> nat" where
  "series_len (Int64 xs) = length xs"
| "series_len (Float64 xs) = length xs"

fun has_nan :: "series \<Rightarrow> bool" where
  "has_nan (Int64 xs) = False"
| "has_nan (Float64 xs) = (None \<in> set xs)"

text \<open>int64 arithmetic keeps the low 64 bits of a result, read as two's complement.\<close>

definition wrap64 :: "int \<Rightarrow> int" where
  "wrap64 n = (n + 2 ^ 63) mod 2 ^ 64 - 2 ^ 63"

text \<open>
  float64 arithmetic, as numpy does it: the float nearest to an int64, the sum of two
  floats, \<^verbatim>\<open>Series.sum()\<close> of a float64 column and \<^verbatim>\<open>DataFrame.sum(axis=1)\<close> of one
  row of float64 columns, the last two on the entries with NaN replaced by zero.
\<close>

record float_ops =
  float_of_int :: "int \<Rightarrow> real"
  float_add :: "real \<Rightarrow> real \<Rightarrow> real"
  float_sum :: "real list \<Rightarrow> real"
  float_row_sum :: "real list \<Rightarrow> real"

fun as_float :: "float_ops \<Rightarrow> number \<Rightarrow> real" where
  "as_float fl (IntVal n) = float_of_int fl n"
| "as_float fl (FloatVal x) = x"

definition nan_to_zero :: "real option \<Rightarrow> real" where
  "nan_to_zero v = (case v of None \<Rightarrow> 0 | Some x \<Rightarrow> x)"

text \<open>\<^verbatim>\<open>a.sum()\<close> on a column: the int64 sum wraps around, the float64 sum rounds.\<close>

fun series_total :: "float_ops \<Rightarrow> series \<Rightarrow> number" where
  "series_total fl (Int64 xs) = IntVal (wrap64 (sum_list xs))"
| "series_total fl (Float64 xs) = FloatVal (float_sum fl (map nan_to_zero xs))"

text \<open>\<^verbatim>\<open>x + y\<close> on two such sums: int64 if both are, float64 otherwise.\<close>

fun number_add :: "float_ops \<Rightarrow> number \<Rightarrow> number \<Rightarrow> number" where
  "number_add fl (IntVal a) (IntVal b) = IntVal (wrap64 (a + b))"
| "number_add fl a b = FloatVal (float_add fl (as_float fl a) (as_float fl b))"

text \<open>\<^verbatim>\<open>x > 0\<close>.\<close>

fun positive :: "number \<Rightarrow> bool" where
  "positive (IntVal n) = (0 < n)"
| "positive (FloatVal x) = (0 < x)"

text \<open>
  \<^verbatim>\<open>a + b\<close> on two columns of one frame, entry by entry: int64 with wrap-around if both
  are int64, float64 otherwise, NaN if either entry is.
\<close>

fun as_floats :: "float_ops \<Rightarrow> series \<Rightarrow> real option list" where
  "as_floats fl (Int64 xs) = map (\<lambda>n. Some (float_of_int fl n)) xs"
| "as_floats fl (Float64 xs) = xs"

fun add_nan :: "float_ops \<Rightarrow> real option \<Rightarrow> real option \<Rightarrow> real option" where
  "add_nan fl (Some a) (Some b) = Some (float_add fl a b)"
| "add_nan fl _ _ = None"

fun series_add :: "float_ops \<Rightarrow> series \<Rightarrow> series \<Rightarrow> series" where
  "series_add fl (Int64 a) (Int64 b) = Int64 (map (\<lambda>(x, y). wrap64 (x + y)) (zip a b))"
| "series_add fl a b =
     Float64 (map (\<lambda>(x, y). add_nan fl x y) (zip (as_floats fl a) (as_floats fl b)))"

text \<open>\<^verbatim>\<open>fillna(0)\<close> on a column.\<close>

definition fill0 :: "real option \<Rightarrow> real option" where
  "fill0 v = (case v of None \<Rightarrow> Some 0 | Some x \<Rightarrow> Some x)"

fun fillna0 :: "series \<Rightarrow> series" where
  "fillna0 (Int64 xs) = Int64 xs"
| "fillna0 (Float64 xs) = Float64 (map fill0 xs)"

text \<open>
  The column that \<^verbatim>\<open>pd.to_numeric(..., errors='coerce')\<close> returns for the values read
  from its entries: int64 when every entry is an integer, float64 otherwise, with the
  integers converted and NaN where nothing was read.
\<close>

fun is_int :: "number option \<Rightarrow> bool" where
  "is_int (Some (IntVal n)) = True"
| "is_int _ = False"

fun int_value :: "number option \<Rightarrow> int" where
  "int_value (Some (IntVal n)) = n"
| "int_value _ = 0"

definition to_series :: "float_ops \<Rightarrow> number option list \<Rightarrow> series" where
  "to_series fl vs =
     (if list_all is_int vs then Int64 (map int_value vs)
      else Float64 (map (map_option (as_float fl)) vs))"

subsection \<open>The series of one socket (lines 61 to 82)\<close>

text \<open>
  Line 62, \<^verbatim>\<open>skt_df = df[skt]\<close>: the columns whose outer label is the socket, under
  their inner labels, on the same row index.
\<close>

record socket_frame =
  scolumns :: "string list"
  srows :: "(timestamp option \<times> cell list) list"

definition select_socket :: "table \<Rightarrow> string \<Rightarrow> socket_frame" where
  "select_socket t skt =
     \<lparr>scolumns = map snd (filter (\<lambda>k. fst k = skt) (tcolumns t)),
      srows = map (\<lambda>(ts, cs). (ts, map snd (filter (\<lambda>(k, c). fst k = skt) (zip (tcolumns t) cs))))
                (trows t)\<rparr>"

text \<open>The cell of one row in the column called \<open>name\<close>.\<close>

definition row_cell :: "string list \<Rightarrow> cell list \<Rightarrow> string \<Rightarrow> cell" where
  "row_cell cols cs name = (case map_of (zip cols cs) name of None \<Rightarrow> NaN | Some c \<Rightarrow> c)"

text \<open>
  What \<^verbatim>\<open>pd.to_numeric(x.astype(str).str.strip(), errors='coerce')\<close> reads from one
  cell. \<^verbatim>\<open>astype(str)\<close> writes a missing cell as \<^verbatim>\<open>nan\<close>, which is read back as
  NaN, and a number in the notation that is read back as the same number of the same kind;
  text is stripped and read, and what cannot be read is NaN.
\<close>

definition coerce :: "(ustring \<Rightarrow> number option) \<Rightarrow> cell \<Rightarrow> number option" where
  "coerce to_numeric c =
     (case c of
        NaN \<Rightarrow> None
      | IntNum n \<Rightarrow> Some (IntVal n)
      | Num x \<Rightarrow> Some (FloatVal x)
      | Str s \<Rightarrow> to_numeric (strip s))"

text \<open>
  Lines 65 to 68. \<^verbatim>\<open>pd.Series(0, index=...)\<close> is an int64 column of zeros.
\<close>

definition to_numeric_safe ::
  "(ustring \<Rightarrow> number option) \<Rightarrow> float_ops \<Rightarrow> socket_frame \<Rightarrow> string \<Rightarrow> series" where
  "to_numeric_safe to_numeric fl skt_df col_name =
     (if col_name \<in> set (scolumns skt_df)
      then fillna0 (to_series fl
             (map (\<lambda>(ts, cs). coerce to_numeric (row_cell (scolumns skt_df) cs col_name))
                (srows skt_df)))
      else Int64 (replicate (length (srows skt_df)) 0))"

text \<open>Lines 75 to 77.\<close>

definition cxl_cols :: "socket_frame \<Rightarrow> string list" where
  "cxl_cols skt_df = filter (\<lambda>c. startswith c ''CXL.'') (scolumns skt_df)"

definition cxl_read_cols :: "socket_frame \<Rightarrow> string list" where
  "cxl_read_cols skt_df =
     filter (\<lambda>c. contains ''Read'' c \<or> contains ''dv->hst'' c) (cxl_cols skt_df)"

definition cxl_write_cols :: "socket_frame \<Rightarrow> string list" where
  "cxl_write_cols skt_df =
     filter (\<lambda>c. contains ''Write'' c \<or> contains ''hst->dv'' c) (cxl_cols skt_df)"

text \<open>
  Lines 79 and 80. With columns in the group, each is read as above and every row is summed
  over them (\<^verbatim>\<open>sum(axis=1)\<close>, NaN counting as zero): in int64 when all the columns are
  int64, that is when every entry of every row is an integer, and in float64 otherwise;
  \<^verbatim>\<open>fillna(0)\<close> follows. With no column in the group the scalar \<^verbatim>\<open>0\<close> is assigned,
  which the frame \<^verbatim>\<open>plot_data\<close> stores in every row of its index as an int64 column.
\<close>

definition cxl_sum ::
  "(ustring \<Rightarrow> number option) \<Rightarrow> float_ops \<Rightarrow> socket_frame \<Rightarrow> string list \<Rightarrow> series" where
  "cxl_sum to_numeric fl skt_df cols =
     (if cols \<noteq> [] then
        (let vals = map (\<lambda>(ts, cs).
                      map (\<lambda>name. coerce to_numeric (row_cell (scolumns skt_df) cs name)) cols)
                    (srows skt_df)
         in fillna0
              (if list_all (list_all is_int) vals
               then Int64 (map (\<lambda>row. wrap64 (sum_list (map int_value row))) vals)
               else Float64 (map (\<lambda>row. Some (float_row_sum fl
                       (map (\<lambda>v. nan_to_zero (map_option (as_float fl) v)) row))) vals)))
      else Int64 (replicate (length (srows skt_df)) 0))"

record plot_data =
  pd_index :: "timestamp option list"
  DRAM_Read :: series
  DRAM_Write :: series
  PMM_Read :: series
  PMM_Write :: series
  CXL_Read :: series
  CXL_Write :: series

text \<open>The body of the first loop, lines 62 to 80.\<close>

definition extract_series ::
  "(ustring \<Rightarrow> number option) \<Rightarrow> float_ops \<Rightarrow> socket_frame \<Rightarrow> plot_data" where
  "extract_series to_numeric fl skt_df =
     \<lparr>pd_index = map fst (srows skt_df),
      DRAM_Read = to_numeric_safe to_numeric fl skt_df ''Mem Read (MB/s)'',
      DRAM_Write = to_numeric_safe to_numeric fl skt_df ''Mem Write (MB/s)'',
      PMM_Read = to_numeric_safe to_numeric fl skt_df ''PMM_Read (MB/s)'',
      PMM_Write = to_numeric_safe to_numeric fl skt_df ''PMM_Write (MB/s)'',
      CXL_Read = cxl_sum to_numeric fl skt_df (cxl_read_cols skt_df),
      CXL_Write = cxl_sum to_numeric fl skt_df (cxl_write_cols skt_df)\<rparr>"

text \<open>Line 82: \<^verbatim>\<open>all_skt_data[skt]\<close>.\<close>

definition all_skt_data ::
  "(ustring \<Rightarrow> number option) \<Rightarrow> float_ops \<Rightarrow> table \<Rightarrow> string \<Rightarrow> plot_data" where
  "all_skt_data to_numeric fl t skt = extract_series to_numeric fl (select_socket t skt)"

subsection \<open>The chart (lines 84 to 101)\<close>

text \<open>The keys of \<^verbatim>\<open>type_colors\<close> and of \<^verbatim>\<open>type_styles\<close>.\<close>

datatype tier = DRAM | PMM | CXL

datatype style = Read | Write | Total

fun type_colors :: "tier \<Rightarrow> string" where
  "type_colors DRAM = ''tab:red''"
| "type_colors PMM = ''tab:orange''"
| "type_colors CXL = ''tab:green''"

fun type_styles :: "style \<Rightarrow> string" where
  "type_styles Read = ''-''"
| "type_styles Write = ''--''"
| "type_styles Total = ''solid''"

text \<open>One call of \<^verbatim>\<open>plt.plot(x, y, label=..., color=..., linestyle=...)\<close>.\<close>

record line =
  line_x :: "timestamp option list"
  line_y :: series
  label :: string
  color :: string
  linestyle :: string

text \<open>
  The test of lines 89, 91, 96 and 99, \<^verbatim>\<open>r.sum() + w.sum() > 0\<close>, in the arithmetic of
  the two columns.
\<close>

definition sum_is_positive :: "float_ops \<Rightarrow> series \<Rightarrow> series \<Rightarrow> bool" where
  "sum_is_positive fl r w = positive (number_add fl (series_total fl r) (series_total fl w))"

text \<open>The body of the second loop, lines 85 to 101.\<close>

definition plot_socket :: "float_ops \<Rightarrow> string \<Rightarrow> string \<Rightarrow> plot_data \<Rightarrow> line list" where
  "plot_socket fl mode skt data =
     (if mode = ''total'' then
        [\<lparr>line_x = pd_index data, line_y = series_add fl (DRAM_Read data) (DRAM_Write data),
          label = skt @ '' DRAM Total'', color = type_colors DRAM, linestyle = type_styles Total\<rparr>]
        @ (if sum_is_positive fl (PMM_Read data) (PMM_Write data) then
             [\<lparr>line_x = pd_index data, line_y = series_add fl (PMM_Read data) (PMM_Write data),
               label = skt @ '' PMM Total'', color = type_colors PMM, linestyle = type_styles Total\<rparr>]
           else [])
        @ (if sum_is_positive fl (CXL_Read data) (CXL_Write data) then
             [\<lparr>line_x = pd_index data, line_y = series_add fl (CXL_Read data) (CXL_Write data),
               label = skt @ '' CXL Total'', color = type_colors CXL, linestyle = type_styles Total\<rparr>]
           else [])
      else
        [\<lparr>line_x = pd_index data, line_y = DRAM_Read data,
          label = skt @ '' DRAM Read'', color = type_colors DRAM, linestyle = type_styles Read\<rparr>,
         \<lparr>line_x = pd_index data, line_y = DRAM_Write data,
          label = skt @ '' DRAM Write'', color = type_colors DRAM, linestyle = type_styles Write\<rparr>]
        @ (if sum_is_positive fl (PMM_Read data) (PMM_Write data) then
             [\<lparr>line_x = pd_index data, line_y = PMM_Read data,
               label = skt @ '' PMM Read'', color = type_colors PMM, linestyle = type_styles Read\<rparr>,
              \<lparr>line_x = pd_index data, line_y = PMM_Write data,
               label = skt @ '' PMM Write'', color = type_colors PMM, linestyle = type_styles Write\<rparr>]
           else [])
        @ (if sum_is_positive fl (CXL_Read data) (CXL_Write data) then
             [\<lparr>line_x = pd_index data, line_y = CXL_Read data,
               label = skt @ '' CXL Read'', color = type_colors CXL, linestyle = type_styles Read\<rparr>,
              \<lparr>line_x = pd_index data, line_y = CXL_Write data,
               label = skt @ '' CXL Write'', color = type_colors CXL, linestyle = type_styles Write\<rparr>]
           else []))"

subsection \<open>The whole function\<close>

text \<open>
  What a run that reaches the end has done: the two lines printed at 53 and 54, the lines
  plotted, and the file written at line 117. The title, the axis labels, the legend and the
  tick format (lines 103 to 115) are the same in every run.
\<close>

record chart =
  stdout :: "string list"
  lines :: "line list"
  title :: string
  savefig :: string

definition parse_bandwidth_csv ::
  "(ustring \<Rightarrow> timestamp option) \<Rightarrow> (ustring \<Rightarrow> number option) \<Rightarrow> float_ops \<Rightarrow>
     read_result \<Rightarrow> string \<Rightarrow> failure + chart" where
  "parse_bandwidth_csv to_datetime to_numeric fl csv mode =
     (case csv of
        EmptyDataError \<Rightarrow> Inl EmptyData
      | ReadError e \<Rightarrow> Inl (ParseFailure e)
      | Frame df \<Rightarrow>
          (case csv_normalizer to_datetime df of
             Inl f \<Rightarrow> Inl f
           | Inr (t, sockets) \<Rightarrow>
               Inr \<lparr>stdout = [''Sockets detected: '' @ join '', '' sockets, ''Mode: '' @ mode],
                    lines = concat (map (\<lambda>skt. plot_socket fl mode skt
                                              (all_skt_data to_numeric fl t skt)) sockets),
                    title = ''Memory Bandwidth per Socket'',
                    savefig = ''bandwidth.png''\<rparr>))"

subsection \<open>The lines of one tier of one socket in a chart\<close>

text \<open>
  The legend names every plotted line \<^verbatim>\<open>{socket} {tier} {Read|Write|Total}\<close>, and every
  tier has its own colour: the lines of a tier of a socket are those with the tier's colour
  and one of the socket's three labels for the tier.
\<close>

fun tier_name :: "tier \<Rightarrow> string" where
  "tier_name DRAM = ''DRAM''"
| "tier_name PMM = ''PMM''"
| "tier_name CXL = ''CXL''"

definition tier_labels :: "string \<Rightarrow> tier \<Rightarrow> string list" where
  "tier_labels skt tr =
     map (\<lambda>s. skt @ '' '' @ tier_name tr @ '' '' @ s) [''Read'', ''Write'', ''Total'']"

definition socket_tier_lines :: "string \<Rightarrow> tier \<Rightarrow> line list \<Rightarrow> line list" where
  "socket_tier_lines skt tr ls =
     filter (\<lambda>l. color l = type_colors tr \<and> label l \<in> set (tier_labels skt tr)) ls"

text \<open>A column of zeros, of either dtype.\<close>

fun all_zero :: "series \<Rightarrow> bool" where
  "all_zero (Int64 xs) = list_all (\<lambda>x. x = 0) xs"
| "all_zero (Float64 xs) = list_all (\<lambda>v. v = Some 0) xs"

text \<open>
  What the float64 arithmetic does with zeros: the float nearest to 0 is 0, and sums of
  zeros are 0.
\<close>

definition zeros_stay_zero :: "float_ops \<Rightarrow> bool" where
  "zeros_stay_zero fl =
     (float_of_int fl 0 = 0 \<and> float_add fl 0 0 = 0 \<and> (\<forall>n. float_sum fl (replicate n 0) = 0))"

text \<open>
  A column without a negative entry, a column with a positive entry, and the exact sum of
  the entries of an int64 column (a float64 column has none; it counts as 0).
\<close>

fun nonneg :: "series \<Rightarrow> bool" where
  "nonneg (Int64 xs) = list_all (\<lambda>x. 0 \<le> x) xs"
| "nonneg (Float64 xs) = list_all (\<lambda>v. 0 \<le> nan_to_zero v) xs"

fun some_positive :: "series \<Rightarrow> bool" where
  "some_positive (Int64 xs) = list_ex (\<lambda>x. 0 < x) xs"
| "some_positive (Float64 xs) = list_ex (\<lambda>v. 0 < nan_to_zero v) xs"

fun int_total :: "series \<Rightarrow> int" where
  "int_total (Int64 xs) = sum_list xs"
| "int_total (Float64 xs) = 0"

text \<open>
  What the float64 arithmetic does with signs: rounding never turns a positive number into
  zero or less, nor a non-negative number into a negative one, so the float nearest to an
  integer has its sign, and a sum of non-negative floats is non-negative, and positive when
  one of them is.
\<close>

definition sums_keep_sign :: "float_ops \<Rightarrow> bool" where
  "sums_keep_sign fl =
     ((\<forall>n. (0 \<le> n \<longrightarrow> 0 \<le> float_of_int fl n) \<and> (0 < n \<longrightarrow> 0 < float_of_int fl n)) \<and>
      (\<forall>xs. list_all (\<lambda>x. 0 \<le> x) xs \<longrightarrow>
         0 \<le> float_sum fl xs \<and> (list_ex (\<lambda>x. 0 < x) xs \<longrightarrow> 0 < float_sum fl xs)) \<and>
      (\<forall>a b. 0 \<le> a \<and> 0 \<le> b \<and> (0 < a \<or> 0 < b) \<longrightarrow> 0 < float_add fl a b))"

subsection \<open>Sample library behaviour for the examples\<close>

text \<open>
  The values of \<^verbatim>\<open>pd.to_datetime\<close> on the timestamps the examples use, in seconds
  since midnight; every other string of the examples is not a date.
\<close>

definition sample_to_datetime :: "ustring \<Rightarrow> timestamp option" where
  "sample_to_datetime s =
     map_of [(ustr ''2024-01-01 10:00:00'', 36000), (ustr ''2024-01-01 10:00:01'', 36001),
             (ustr ''2024-01-01 10:00:02'', 36002)] s"

text \<open>
  A reader of plain decimal literals (an optional minus sign, digits, an optional fraction),
  on which \<^verbatim>\<open>pd.to_numeric\<close> agrees with it: digits alone are an integer (below
  \<open>2 ^ 63\<close>), digits with a fraction the float that the literal stands for;
  everything else is not a number here.
\<close>

definition is_digit :: "nat \<Rightarrow> bool" where
  "is_digit n = (48 \<le> n \<and> n \<le> 57)"

definition digits_value :: "ustring \<Rightarrow> nat" where
  "digits_value ds = foldl (\<lambda>acc c. 10 * acc + (c - 48)) 0 ds"

definition unsigned_decimal :: "ustring \<Rightarrow> number option" where
  "unsigned_decimal s =
     (let ip = takeWhile is_digit s; rest = dropWhile is_digit s in
      if rest = [] then
        (if ip \<noteq> [] \<and> digits_value ip < 2 ^ 63 then Some (IntVal (int (digits_value ip)))
         else None)
      else if hd rest = 46 \<and> list_all is_digit (tl rest) \<and> (ip \<noteq> [] \<or> tl rest \<noteq> [])
      then Some (FloatVal (real (digits_value ip)
                   + real (digits_value (tl rest)) / 10 ^ length (tl rest)))
      else None)"

fun negate :: "number \<Rightarrow> number" where
  "negate (IntVal n) = IntVal (- n)"
| "negate (FloatVal x) = FloatVal (- x)"

definition sample_to_numeric :: "ustring \<Rightarrow> number option" where
  "sample_to_numeric s =
     (if s \<noteq> [] \<and> hd s = 45 then map_option negate (unsigned_decimal (tl s))
      else unsigned_decimal s)"

text \<open>
  float64 arithmetic as it is on the numbers of the examples, which are small enough for
  every conversion and every sum to be exact.
\<close>

definition small_floats :: float_ops where
  "small_floats =
     \<lparr>float_of_int = real_of_int, float_add = (+), float_sum = sum_list,
      float_row_sum = sum_list\<rparr>"

subsection \<open>Time order of a row index\<close>

text \<open>
  An index is strictly time-ordered when every entry is a timestamp earlier than all
  entries after it; a comparison with NaT does not hold.
\<close>

fun ts_before :: "timestamp option \<Rightarrow> timestamp option \<Rightarrow> bool" where
  "ts_before (Some a) (Some b) = (a < b)"
| "ts_before _ _ = False"

definition strictly_time_ordered :: "timestamp option list \<Rightarrow> bool" where
  "strictly_time_ordered idx = sorted_wrt ts_before idx"

subsection \<open>Example inputs\<close>

text \<open>The header of the examples: date, time, and the DRAM columns of one socket.\<close>

definition dram_header :: "colkey list" where
  "dram_header =
     [(''Unnamed: 0_level_0'', ''Date''), (''Unnamed: 1_level_0'', ''Time''),
      (''SKT0'', ''Mem Read (MB/s)''), (''SKT0'', ''Mem Write (MB/s)'')]"

text \<open>The same header after line 27, and what is left of it after line 37.\<close>

definition info_header :: "colkey list" where
  "info_header =
     [(''Info'', ''Date''), (''Info'', ''Time''),
      (''SKT0'', ''Mem Read (MB/s)''), (''SKT0'', ''Mem Write (MB/s)'')]"

definition dram_columns :: "colkey list" where
  "dram_columns = [(''SKT0'', ''Mem Read (MB/s)''), (''SKT0'', ''Mem Write (MB/s)'')]"

text \<open>The date and the times of the examples, and a date that is none.\<close>

definition day :: cell where
  "day = Str (ustr ''2024-01-01'')"

definition time0 :: cell where
  "time0 = Str (ustr ''10:00:00'')"

definition time1 :: cell where
  "time1 = Str (ustr ''10:00:01'')"

definition no_day :: cell where
  "no_day = Str (ustr ''not a date'')"

text \<open>A good row followed by a row whose date is not a date but whose metrics are there.\<close>

definition mixed_frame :: frame where
  "mixed_frame =
     \<lparr>columns = dram_header,
      rows = [[day, time0, Num 100, Num 50],
              [no_day, time1, Num 200, Num 100]]\<rparr>"

text \<open>Two rows in descending time.\<close>

definition unordered_frame :: frame where
  "unordered_frame =
     \<lparr>columns = dram_header,
      rows = [[day, time1, Num 200, Num 100],
              [day, time0, Num 100, Num 50]]\<rparr>"

text \<open>Two rows in ascending time, the second without any metric value.\<close>

definition ordered_frame :: frame where
  "ordered_frame =
     \<lparr>columns = dram_header,
      rows = [[day, time0, Num 100, Num 50],
              [day, time1, NaN, NaN]]\<rparr>"

text \<open>No timestamp parses, and every row has metric values.\<close>

definition unparsable_frame :: frame where
  "unparsable_frame =
     \<lparr>columns = dram_header,
      rows = [[no_day, time0, Num 100, Num 50],
              [no_day, time1, Num 200, Num 100]]\<rparr>"

text \<open>No timestamp parses, the rows have values, and no column belongs to a socket.\<close>

definition system_frame :: frame where
  "system_frame =
     \<lparr>columns = [(''Unnamed: 0_level_0'', ''Date''), (''Unnamed: 1_level_0'', ''Time''),
                 (''System'', ''Read'')],
      rows = [[no_day, time0, Num 100]]\<rparr>"

text \<open>A good timestamp and no metric value at all.\<close>

definition empty_metrics_frame :: frame where
  "empty_metrics_frame =
     \<lparr>columns = dram_header,
      rows = [[day, time0, NaN, NaN]]\<rparr>"

text \<open>A header whose first column is not a date column.\<close>

definition bad_header_frame :: frame where
  "bad_header_frame =
     \<lparr>columns = [(''Unnamed: 0_level_0'', ''Day''), (''Unnamed: 1_level_0'', ''Time''),
                 (''SKT0'', ''Mem Read (MB/s)'')],
      rows = [[day, time0, Num 100]]\<rparr>"

text \<open>A socket that has none of the columns the program looks for.\<close>

definition other_table :: table where
  "other_table =
     \<lparr>tcolumns = [(''SKT0'', ''Memory (MB/s)'')],
      trows = [(Some 36000, [Num 150]), (Some 36001, [Num 300])]\<rparr>"

text \<open>
  One row with DRAM traffic and the given PMM read and write values, as floats and as
  integers, and the tables the normalizer makes of them.
\<close>

definition pmm_header :: "colkey list" where
  "pmm_header = dram_header @ [(''SKT0'', ''PMM_Read (MB/s)''), (''SKT0'', ''PMM_Write (MB/s)'')]"

definition pmm_columns :: "colkey list" where
  "pmm_columns = dram_columns @ [(''SKT0'', ''PMM_Read (MB/s)''), (''SKT0'', ''PMM_Write (MB/s)'')]"

definition pmm_frame :: "real \<Rightarrow> real \<Rightarrow> frame" where
  "pmm_frame r w =
     \<lparr>columns = pmm_header, rows = [[day, time0, Num 100, Num 50, Num r, Num w]]\<rparr>"

definition pmm_table :: "real \<Rightarrow> real \<Rightarrow> table" where
  "pmm_table r w =
     \<lparr>tcolumns = pmm_columns, trows = [(Some 36000, [Num 100, Num 50, Num r, Num w])]\<rparr>"

definition int_pmm_frame :: "int list \<Rightarrow> int list \<Rightarrow> frame" where
  "int_pmm_frame rs ws =
     \<lparr>columns = pmm_header,
      rows = map (\<lambda>(r, w). [day, time0, IntNum 100, IntNum 50, IntNum r, IntNum w]) (zip rs ws)\<rparr>"

definition int_pmm_table :: "int list \<Rightarrow> int list \<Rightarrow> table" where
  "int_pmm_table rs ws =
     \<lparr>tcolumns = pmm_columns,
      trows = map (\<lambda>(r, w). (Some 36000, [IntNum 100, IntNum 50, IntNum r, IntNum w]))
                (zip rs ws)\<rparr>"

text \<open>The end-to-end scenario of the specification: two rows of DRAM traffic.\<close>

definition scenario_frame :: frame where
  "scenario_frame =
     \<lparr>columns = dram_header,
      rows = [[day, time0, IntNum 100, IntNum 50],
              [day, time1, IntNum 200, IntNum 100]]\<rparr>"

section \<open>Properties\<close>

subsection \<open>The steps of the normalizer\<close>

lemma relabel_header_Inr:
  assumes "relabel_header cols = Inr cols'"
  obtains c0 c1 rest where "cols = c0 # c1 # rest"
    and "cols' = (''Info'', ''Date'') # (''Info'', ''Time'') # rest"
    and "contains ''Date'' (snd c0)" and "contains ''Time'' (snd c1)"
  using assms unfolding relabel_header_def
  by (auto split: list.splits if_splits)

lemma trows_clean:
  "trows (clean to_datetime cols rs) =
     map (\<lambda>r. (row_timestamp to_datetime r, keep_cells cols r))
       (filter (\<lambda>r. has_value (keep_cells cols r)) rs)"
  by (simp add: clean_def dropna_all_def drop_info_def set_index_def filter_map comp_def)

lemma tcolumns_clean:
  "tcolumns (clean to_datetime cols rs) = filter (\<lambda>k. fst k \<noteq> ''Info'') cols"
  by (simp add: clean_def dropna_all_def drop_info_def set_index_def)

lemma csv_normalizer_Inr:
  assumes "csv_normalizer to_datetime df = Inr (t, sockets)"
  obtains cols where "relabel_header (columns df) = Inr cols"
    and "t = clean to_datetime cols (rows df)"
    and "sockets = detect_sockets t" and "sockets \<noteq> []" and "\<not> df_empty t"
  using assms unfolding csv_normalizer_def
  by (auto simp: Let_def split: sum.splits if_splits)

lemma csv_normalizer_header_failure:
  "relabel_header (columns df) = Inl f \<Longrightarrow> csv_normalizer to_datetime df = Inl f"
  by (simp add: csv_normalizer_def)

subsection \<open>The header check\<close>

text \<open>
  C8. When the inner labels of the first two header columns do not contain \<^verbatim>\<open>Date\<close>
  and \<^verbatim>\<open>Time\<close> respectively, the run ends at line 30: the header message is printed,
  the exit status is not zero, and there is no chart (the result is a failure).
\<close>

theorem header_mismatch_is_fatal:
  assumes "columns df = c0 # c1 # rest"
    and "\<not> (contains ''Date'' (snd c0) \<and> contains ''Time'' (snd c1))"
  shows "parse_bandwidth_csv to_datetime to_numeric fl (Frame df) mode = Inl HeaderMismatch \<and>
         message HeaderMismatch = ''Error: CSV header does not match expected format.'' \<and>
         0 < exit_status HeaderMismatch"
proof -
  have "relabel_header (columns df) = Inl HeaderMismatch"
    using assms by (auto simp: relabel_header_def)
  then show ?thesis
    by (simp add: parse_bandwidth_csv_def csv_normalizer_header_failure)
qed

theorem header_mismatch_is_fatal_witness:
  "columns bad_header_frame =
     (''Unnamed: 0_level_0'', ''Day'') # (''Unnamed: 1_level_0'', ''Time'') #
       [(''SKT0'', ''Mem Read (MB/s)'')] \<and>
   \<not> (contains ''Date'' ''Day'' \<and> contains ''Time'' ''Time'') \<and>
   parse_bandwidth_csv sample_to_datetime sample_to_numeric small_floats (Frame bad_header_frame) ''rw''
     = Inl HeaderMismatch"
  using header_mismatch_is_fatal [of bad_header_frame "(''Unnamed: 0_level_0'', ''Day'')"
      "(''Unnamed: 1_level_0'', ''Time'')" "[(''SKT0'', ''Mem Read (MB/s)'')]"
      sample_to_datetime sample_to_numeric small_floats "''rw''"]
  by (simp add: bad_header_frame_def)

subsection \<open>Unfolding the model on concrete inputs\<close>

lemmas normalizer_defs =
  csv_normalizer_def relabel_header_def concat_raises_def cell_at_def clean_def set_index_def
  drop_info_def dropna_all_def keep_cells_def has_value_def df_empty_def detect_sockets_def
  row_timestamp_def sample_to_datetime_def dram_header_def info_header_def dram_columns_def
  pmm_header_def pmm_columns_def day_def time0_def time1_def no_day_def

lemmas series_defs =
  all_skt_data_def extract_series_def select_socket_def to_numeric_safe_def row_cell_def
  coerce_def to_series_def fill0_def cxl_sum_def cxl_cols_def cxl_read_cols_def
  cxl_write_cols_def nan_to_zero_def

lemmas chart_defs =
  parse_bandwidth_csv_def plot_socket_def sum_is_positive_def small_floats_def wrap64_def

subsection \<open>Rows with an unparsable timestamp\<close>

text \<open>
  C1, as the specification states it: a row whose date and time do not parse is dropped, so
  that no row of the normalizer's output has a missing timestamp. The code keeps such a row
  when it has a metric value: line 38 looks at the cells only, and the timestamp is the
  index by then. On \<open>mixed_frame\<close> the second row has no timestamp and is in the output.
\<close>

theorem unparsable_row_is_kept:
  "row_timestamp sample_to_datetime [no_day, time1, Num 200, Num 100] = None \<and>
   csv_normalizer sample_to_datetime mixed_frame =
     Inr (\<lparr>tcolumns = dram_columns,
           trows = [(Some 36000, [Num 100, Num 50]), (None, [Num 200, Num 100])]\<rparr>, [''SKT0''])"
  by (simp add: normalizer_defs mixed_frame_def)

text \<open>
  C1, amended: a row whose date and time do not parse gets a missing timestamp, and it is in
  the output exactly when one of its cells outside the \<^verbatim>\<open>Info\<close> columns is not
  missing; every row of the output has such a cell.
\<close>

theorem unparsable_timestamp_rows:
  assumes "csv_normalizer to_datetime df = Inr (t, sockets)"
    and "relabel_header (columns df) = Inr cols"
    and "r \<in> set (rows df)"
    and "row_timestamp to_datetime r = None"
  shows "((None, keep_cells cols r) \<in> set (trows t)) = has_value (keep_cells cols r) \<and>
         list_all (\<lambda>(ts, cs). has_value cs) (trows t)"
proof -
  from assms(1,2) have t: "t = clean to_datetime cols (rows df)"
    by (auto elim!: csv_normalizer_Inr)
  have "((None, keep_cells cols r) \<in> set (trows t)) = has_value (keep_cells cols r)"
  proof
    assume "(None, keep_cells cols r) \<in> set (trows t)"
    then obtain r' where "has_value (keep_cells cols r')"
      and "keep_cells cols r = keep_cells cols r'"
      by (auto simp: t trows_clean)
    then show "has_value (keep_cells cols r)" by simp
  next
    assume "has_value (keep_cells cols r)"
    with assms(3) have "r \<in> set (filter (\<lambda>r. has_value (keep_cells cols r)) (rows df))"
      by simp
    then have "(row_timestamp to_datetime r, keep_cells cols r) \<in> set (trows t)"
      unfolding t trows_clean set_map by (rule imageI)
    with assms(4) show "(None, keep_cells cols r) \<in> set (trows t)" by simp
  qed
  moreover have "list_all (\<lambda>(ts, cs). has_value cs) (trows t)"
    by (simp add: t trows_clean list_all_iff)
  ultimately show ?thesis by simp
qed

theorem unparsable_timestamp_rows_witness:
  "csv_normalizer sample_to_datetime mixed_frame =
     Inr (\<lparr>tcolumns = dram_columns,
           trows = [(Some 36000, [Num 100, Num 50]), (None, [Num 200, Num 100])]\<rparr>, [''SKT0'']) \<and>
   relabel_header (columns mixed_frame) = Inr info_header \<and>
   [no_day, time1, Num 200, Num 100] \<in> set (rows mixed_frame) \<and>
   row_timestamp sample_to_datetime [no_day, time1, Num 200, Num 100] = None \<and>
   has_value (keep_cells info_header [no_day, time1, Num 200, Num 100]) \<and>
   (None, keep_cells info_header [no_day, time1, Num 200, Num 100])
     \<in> set [(Some 36000, [Num 100, Num 50]), (None, [Num 200, Num 100])]"
  using unparsable_timestamp_rows [of sample_to_datetime mixed_frame
      "\<lparr>tcolumns = dram_columns,
        trows = [(Some 36000, [Num 100, Num 50]), (None, [Num 200, Num 100])]\<rparr>"
      "[''SKT0'']" info_header "[no_day, time1, Num 200, Num 100]"]
  by (simp add: normalizer_defs mixed_frame_def)

subsection \<open>Row count and row order\<close>

text \<open>
  C2, as the specification states it: the output has at most as many rows as the input and
  its index is strictly increasing in time. The second half fails: the code never sorts, so
  rows that come in descending time leave in descending time.
\<close>

theorem unordered_input_stays_unordered:
  "csv_normalizer sample_to_datetime unordered_frame =
     Inr (\<lparr>tcolumns = dram_columns,
           trows = [(Some 36001, [Num 200, Num 100]), (Some 36000, [Num 100, Num 50])]\<rparr>,
          [''SKT0'']) \<and>
   \<not> strictly_time_ordered
        (map fst [(Some 36001, [Num 200, Num 100]), (Some (36000 :: int), [Num 100, Num 50])])"
  by (simp add: normalizer_defs unordered_frame_def strictly_time_ordered_def)

text \<open>
  C2, amended: the output has at most as many rows as the input; its index is the
  timestamps of the input rows that have a value outside the \<^verbatim>\<open>Info\<close> columns, in
  the order of the input (nothing is sorted and no duplicate is removed); so it is strictly
  time-ordered whenever the input rows are.
\<close>

theorem normalizer_keeps_input_order:
  assumes "csv_normalizer to_datetime df = Inr (t, sockets)"
    and "relabel_header (columns df) = Inr cols"
  shows "length (trows t) \<le> length (rows df) \<and>
         map fst (trows t) =
           map (row_timestamp to_datetime) (filter (\<lambda>r. has_value (keep_cells cols r)) (rows df)) \<and>
         (strictly_time_ordered (map (row_timestamp to_datetime) (rows df)) \<longrightarrow>
            strictly_time_ordered (map fst (trows t)))"
proof -
  from assms have t: "t = clean to_datetime cols (rows df)"
    by (auto elim!: csv_normalizer_Inr)
  have idx: "map fst (trows t) =
      map (row_timestamp to_datetime) (filter (\<lambda>r. has_value (keep_cells cols r)) (rows df))"
    by (simp add: t trows_clean comp_def)
  have len: "length (trows t) \<le> length (rows df)"
    by (simp add: t trows_clean)
  have ord: "strictly_time_ordered (map fst (trows t))"
    if "strictly_time_ordered (map (row_timestamp to_datetime) (rows df))"
    using that unfolding idx strictly_time_ordered_def
    by (simp add: sorted_wrt_map sorted_wrt_filter)
  from len idx ord show ?thesis by blast
qed

theorem normalizer_keeps_input_order_witness:
  "csv_normalizer sample_to_datetime ordered_frame =
     Inr (\<lparr>tcolumns = dram_columns, trows = [(Some 36000, [Num 100, Num 50])]\<rparr>, [''SKT0'']) \<and>
   relabel_header (columns ordered_frame) = Inr info_header \<and>
   strictly_time_ordered (map (row_timestamp sample_to_datetime) (rows ordered_frame)) \<and>
   length [(Some (36000 :: int), [Num 100, Num 50])] \<le> length (rows ordered_frame) \<and>
   map (row_timestamp sample_to_datetime)
     (filter (\<lambda>r. has_value (keep_cells info_header r)) (rows ordered_frame)) = [Some 36000] \<and>
   strictly_time_ordered (map fst [(Some (36000 :: int), [Num 100, Num 50])])"
  using normalizer_keeps_input_order [of sample_to_datetime ordered_frame
      "\<lparr>tcolumns = dram_columns, trows = [(Some 36000, [Num 100, Num 50])]\<rparr>"
      "[''SKT0'']" info_header]
  by (simp add: normalizer_defs ordered_frame_def strictly_time_ordered_def)

subsection \<open>No valid data\<close>

lemma has_value_keeps_column:
  assumes "has_value (keep_cells cols r)"
  shows "filter (\<lambda>k. fst k \<noteq> ''Info'') cols \<noteq> []"
proof -
  from assms have "keep_cells cols r \<noteq> []"
    by (auto simp: has_value_def list_ex_iff)
  then obtain k c where "(k, c) \<in> set (zip cols r)" and "fst k \<noteq> ''Info''"
    by (auto simp: keep_cells_def filter_empty_conv)
  then have "k \<in> set cols" and "fst k \<noteq> ''Info''"
    by (auto dest: set_zip_leftD)
  then show ?thesis
    by (auto simp: filter_empty_conv)
qed

lemma df_empty_clean:
  "df_empty (clean to_datetime cols rs) = (\<forall>r \<in> set rs. \<not> has_value (keep_cells cols r))"
proof (cases "\<forall>r \<in> set rs. \<not> has_value (keep_cells cols r)")
  case True
  then have "filter (\<lambda>r. has_value (keep_cells cols r)) rs = []"
    by (simp add: filter_empty_conv)
  with True show ?thesis
    by (simp add: df_empty_def trows_clean)
next
  case False
  then obtain r where r: "r \<in> set rs" "has_value (keep_cells cols r)" by blast
  then have "filter (\<lambda>r. has_value (keep_cells cols r)) rs \<noteq> []"
    by (auto simp: filter_empty_conv)
  moreover have "filter (\<lambda>k. fst k \<noteq> ''Info'') cols \<noteq> []"
    using r(2) by (rule has_value_keeps_column)
  ultimately show ?thesis
    using False by (simp add: df_empty_def trows_clean tcolumns_clean)
qed

lemma detect_sockets_clean:
  "(detect_sockets (clean to_datetime cols rs) = []) =
     (\<not> list_ex (\<lambda>k. startswith (fst k) ''SKT'') cols)"
proof -
  have "startswith (fst k) ''SKT'' \<Longrightarrow> fst k \<noteq> ''Info''" for k :: colkey
    by auto
  then show ?thesis
    by (auto simp: detect_sockets_def tcolumns_clean filter_empty_conv list_ex_iff
        simp flip: set_empty)
qed

lemma detect_sockets_clean_eq:
  "detect_sockets (clean to_datetime cols rs) = detect_sockets (clean to_datetime' cols rs)"
  by (simp add: detect_sockets_def tcolumns_clean)

lemma csv_normalizer_outcome:
  "map_sum id (\<lambda>p. ()) (csv_normalizer to_datetime df) =
   map_sum id (\<lambda>p. ()) (csv_normalizer to_datetime' df)"
  using detect_sockets_clean_eq [of to_datetime _ "rows df" to_datetime']
  by (simp add: csv_normalizer_def df_empty_clean Let_def split: sum.splits)

text \<open>
  C4, as the specification states it: when no row survives timestamp parsing the run ends
  with an error. On \<open>unparsable_frame\<close> no timestamp parses, and the run goes on to
  print the sockets and plot both DRAM lines over an index of NaT.
\<close>

theorem unparsable_timestamps_still_charted:
  "map (row_timestamp sample_to_datetime) (rows unparsable_frame) = [None, None] \<and>
   parse_bandwidth_csv sample_to_datetime sample_to_numeric small_floats
       (Frame unparsable_frame) ''rw'' =
     Inr \<lparr>stdout = [''Sockets detected: SKT0'', ''Mode: rw''],
          lines = [\<lparr>line_x = [None, None], line_y = Float64 [Some 100, Some 200],
                    label = ''SKT0 DRAM Read'', color = ''tab:red'', linestyle = ''-''\<rparr>,
                   \<lparr>line_x = [None, None], line_y = Float64 [Some 50, Some 100],
                    label = ''SKT0 DRAM Write'', color = ''tab:red'', linestyle = ''--''\<rparr>],
          title = ''Memory Bandwidth per Socket'', savefig = ''bandwidth.png''\<rparr>"
  by code_simp

text \<open>
  C4, amended: when the header is accepted, the date and time columns can be joined, and no
  row has a value outside the \<^verbatim>\<open>Info\<close> columns (in particular when there is no data
  row), the run ends at line 45 with the message \<^verbatim>\<open>Error: No valid data after cleaning.\<close>
  and exit status 1, whatever the columns are: the sockets are looked for only after it.
  How the timestamps parse has no part in it. When some row has such a value the run gets
  past line 45 even if no timestamp parses; it then ends with the error of line 49 when no
  outer label starts with \<^verbatim>\<open>SKT\<close>, and with a chart otherwise. In every case the run
  fails in the same way, or not at all, whatever \<^verbatim>\<open>pd.to_datetime\<close> returns.
\<close>

theorem no_metric_values_is_fatal:
  assumes "relabel_header (columns df) = Inr cols"
    and "\<not> concat_raises (map (\<lambda>r. cell_at r 0) (rows df)) (map (\<lambda>r. cell_at r 1) (rows df))"
  shows "((\<forall>r \<in> set (rows df). \<not> has_value (keep_cells cols r)) \<longrightarrow>
            parse_bandwidth_csv to_datetime to_numeric fl (Frame df) mode = Inl NoValidData \<and>
            message NoValidData = ''Error: No valid data after cleaning.'' \<and>
            0 < exit_status NoValidData) \<and>
         ((\<exists>r \<in> set (rows df). has_value (keep_cells cols r)) \<longrightarrow>
            (if list_ex (\<lambda>k. startswith (fst k) ''SKT'') cols
             then \<exists>c. parse_bandwidth_csv to_datetime to_numeric fl (Frame df) mode = Inr c
             else parse_bandwidth_csv to_datetime to_numeric fl (Frame df) mode = Inl NoSockets)) \<and>
         map_sum id (\<lambda>c. ()) (parse_bandwidth_csv to_datetime to_numeric fl (Frame df) mode) =
         map_sum id (\<lambda>c. ()) (parse_bandwidth_csv to_datetime' to_numeric fl (Frame df) mode)"
proof -
  have none: "parse_bandwidth_csv to_datetime to_numeric fl (Frame df) mode = Inl NoValidData"
    if "\<forall>r \<in> set (rows df). \<not> has_value (keep_cells cols r)"
    using assms that by (simp add: parse_bandwidth_csv_def csv_normalizer_def df_empty_clean)
  have some: "if list_ex (\<lambda>k. startswith (fst k) ''SKT'') cols
      then \<exists>c. parse_bandwidth_csv to_datetime to_numeric fl (Frame df) mode = Inr c
      else parse_bandwidth_csv to_datetime to_numeric fl (Frame df) mode = Inl NoSockets"
    if "\<exists>r \<in> set (rows df). has_value (keep_cells cols r)"
    using assms that
    by (simp add: parse_bandwidth_csv_def csv_normalizer_def df_empty_clean detect_sockets_clean
        Let_def)
  have same: "map_sum id (\<lambda>c. ()) (parse_bandwidth_csv to_datetime to_numeric fl (Frame df) mode) =
      map_sum id (\<lambda>c. ()) (parse_bandwidth_csv to_datetime' to_numeric fl (Frame df) mode)"
    using csv_normalizer_outcome [of to_datetime df to_datetime']
    by (auto simp: parse_bandwidth_csv_def split: sum.splits)
  from none some same show ?thesis by simp
qed

theorem no_metric_values_is_fatal_witness:
  "relabel_header (columns empty_metrics_frame) = Inr info_header \<and>
   \<not> concat_raises (map (\<lambda>r. cell_at r 0) (rows empty_metrics_frame))
        (map (\<lambda>r. cell_at r 1) (rows empty_metrics_frame)) \<and>
   list_all (\<lambda>r. \<not> has_value (keep_cells info_header r)) (rows empty_metrics_frame) \<and>
   row_timestamp sample_to_datetime (hd (rows empty_metrics_frame)) = Some 36000 \<and>
   parse_bandwidth_csv sample_to_datetime sample_to_numeric small_floats
       (Frame empty_metrics_frame) ''total'' = Inl NoValidData \<and>
   relabel_header (columns unparsable_frame) = Inr info_header \<and>
   \<not> concat_raises (map (\<lambda>r. cell_at r 0) (rows unparsable_frame))
        (map (\<lambda>r. cell_at r 1) (rows unparsable_frame)) \<and>
   list_ex (\<lambda>r. has_value (keep_cells info_header r)) (rows unparsable_frame) \<and>
   list_ex (\<lambda>k. startswith (fst k) ''SKT'') info_header \<and>
   isl (parse_bandwidth_csv (\<lambda>s. None) sample_to_numeric small_floats
          (Frame unparsable_frame) ''total'') = False \<and>
   parse_bandwidth_csv (\<lambda>s. None) sample_to_numeric small_floats
       (Frame system_frame) ''total'' = Inl NoSockets"
proof -
  have h1: "relabel_header (columns empty_metrics_frame) = Inr info_header"
    and c1: "\<not> concat_raises (map (\<lambda>r. cell_at r 0) (rows empty_metrics_frame))
        (map (\<lambda>r. cell_at r 1) (rows empty_metrics_frame))"
    by (simp_all add: normalizer_defs empty_metrics_frame_def)
  have h2: "relabel_header (columns unparsable_frame) = Inr info_header"
    and c2: "\<not> concat_raises (map (\<lambda>r. cell_at r 0) (rows unparsable_frame))
        (map (\<lambda>r. cell_at r 1) (rows unparsable_frame))"
    by (simp_all add: normalizer_defs unparsable_frame_def)
  have h3: "relabel_header (columns system_frame) =
      Inr [(''Info'', ''Date''), (''Info'', ''Time''), (''System'', ''Read'')]"
    and c3: "\<not> concat_raises (map (\<lambda>r. cell_at r 0) (rows system_frame))
        (map (\<lambda>r. cell_at r 1) (rows system_frame))"
    by (simp_all add: normalizer_defs system_frame_def)
  have e1: "list_all (\<lambda>r. \<not> has_value (keep_cells info_header r)) (rows empty_metrics_frame)"
    and t1: "row_timestamp sample_to_datetime (hd (rows empty_metrics_frame)) = Some 36000"
    by (simp_all add: normalizer_defs empty_metrics_frame_def)
  have e2: "list_ex (\<lambda>r. has_value (keep_cells info_header r)) (rows unparsable_frame)"
    and s2: "list_ex (\<lambda>k. startswith (fst k) ''SKT'') info_header"
    by (simp_all add: normalizer_defs unparsable_frame_def)
  have e3: "list_ex (\<lambda>r. has_value
        (keep_cells [(''Info'', ''Date''), (''Info'', ''Time''), (''System'', ''Read'')] r))
      (rows system_frame)"
    by (simp add: normalizer_defs system_frame_def)
  note a = no_metric_values_is_fatal [OF h1 c1, of sample_to_datetime sample_to_numeric
      small_floats "''total''" sample_to_datetime]
  note b = no_metric_values_is_fatal [OF h2 c2, of "\<lambda>s. None" sample_to_numeric
      small_floats "''total''" sample_to_datetime]
  note c = no_metric_values_is_fatal [OF h3 c3, of "\<lambda>s. None" sample_to_numeric
      small_floats "''total''" sample_to_datetime]
  from a e1 have r1: "parse_bandwidth_csv sample_to_datetime sample_to_numeric small_floats
       (Frame empty_metrics_frame) ''total'' = Inl NoValidData"
    by (simp add: list_all_iff)
  from b e2 s2 have r2: "isl (parse_bandwidth_csv (\<lambda>s. None) sample_to_numeric small_floats
          (Frame unparsable_frame) ''total'') = False"
    by (auto simp: list_ex_iff)
  from c e3 have r3: "parse_bandwidth_csv (\<lambda>s. None) sample_to_numeric small_floats
       (Frame system_frame) ''total'' = Inl NoSockets"
    by (simp add: list_ex_iff)
  from h1 c1 e1 t1 r1 h2 c2 e2 s2 r2 r3 show ?thesis by simp
qed

subsection \<open>The series of one socket\<close>

lemma scolumns_select:
  "(name \<in> set (scolumns (select_socket t skt))) = ((skt, name) \<in> set (tcolumns t))"
  by (force simp: select_socket_def)

lemma srows_select_fst: "map fst (srows (select_socket t skt)) = map fst (trows t)"
  by (simp add: select_socket_def comp_def case_prod_beta)

lemma length_srows_select: "length (srows (select_socket t skt)) = length (trows t)"
  by (simp add: select_socket_def)

lemma series_len_fillna0: "series_len (fillna0 s) = series_len s"
  by (cases s) simp_all

lemma fillna0_no_nan: "\<not> has_nan (fillna0 s)"
proof (cases s)
  case (Int64 xs)
  then show ?thesis by simp
next
  case (Float64 xs)
  have "fill0 v \<noteq> None" for v
    by (simp add: fill0_def split: option.splits)
  then have "None \<notin> fill0 ` set xs"
    by (metis imageE)
  with Float64 show ?thesis by simp
qed

lemma series_len_to_series: "series_len (to_series fl vs) = length vs"
  by (simp add: to_series_def)

lemma series_len_to_numeric_safe:
  "series_len (to_numeric_safe to_numeric fl skt_df name) = length (srows skt_df)"
  by (simp add: to_numeric_safe_def series_len_fillna0 series_len_to_series)

lemma to_numeric_safe_no_nan: "\<not> has_nan (to_numeric_safe to_numeric fl skt_df name)"
  by (simp add: to_numeric_safe_def fillna0_no_nan)

lemma series_len_cxl_sum:
  "series_len (cxl_sum to_numeric fl skt_df cols) = length (srows skt_df)"
  by (simp add: cxl_sum_def series_len_fillna0 Let_def)

lemma cxl_sum_no_nan: "\<not> has_nan (cxl_sum to_numeric fl skt_df cols)"
  by (simp add: cxl_sum_def fillna0_no_nan Let_def)

lemma to_numeric_safe_absent:
  "name \<notin> set (scolumns skt_df) \<Longrightarrow>
     to_numeric_safe to_numeric fl skt_df name = Int64 (replicate (length (srows skt_df)) 0)"
  by (simp add: to_numeric_safe_def)

lemma cxl_cols_select_empty:
  assumes "\<forall>k \<in> set (tcolumns t). fst k = skt \<longrightarrow> \<not> startswith (snd k) ''CXL.''"
  shows "cxl_cols (select_socket t skt) = []"
  using assms by (auto simp: cxl_cols_def select_socket_def filter_empty_conv)

lemma dropWhile_spaces:
  "list_all is_space pre \<Longrightarrow> dropWhile is_space (pre @ s) = dropWhile is_space s"
  by (induction pre) auto

lemma strip_surrounding:
  assumes "list_all is_space pre" and "list_all is_space post"
  shows "strip (pre @ s @ post) = strip s"
proof -
  have "dropWhile is_space (rev (dropWhile is_space (pre @ s @ post)))
      = dropWhile is_space (rev (dropWhile is_space s))"
  proof (cases "list_all is_space s")
    case True
    with assms have all: "dropWhile is_space (pre @ s @ post) = []"
      and mid: "dropWhile is_space s = []"
      by (auto simp: list_all_iff dropWhile_eq_Nil_conv)
    show ?thesis unfolding all mid ..
  next
    case False
    then have "dropWhile is_space (s @ post) = dropWhile is_space s @ post"
      by (auto simp: list_all_iff dropWhile_append1)
    moreover have "list_all is_space (rev post)" using assms(2) by (simp add: list_all_iff)
    ultimately show ?thesis
      using assms(1) by (simp add: dropWhile_spaces)
  qed
  then show ?thesis by (simp add: strip_def)
qed

text \<open>
  C5. Numeric coercion strips the text of a cell and then parses it: given that
  \<^verbatim>\<open>pd.to_numeric\<close> reads \<^verbatim>\<open>123.4\<close> as that number and reads neither
  \<^verbatim>\<open>N/A\<close> nor the empty string, a column holding \<^verbatim>\<open>" 123.4 "\<close>,
  \<^verbatim>\<open>"N/A"\<close> and \<^verbatim>\<open>""\<close> comes out of \<^verbatim>\<open>to_numeric_safe\<close> as 123.4, 0, 0.
  In general, whitespace around the text of a cell, any of Python's whitespace code points,
  does not change what the cell is coerced to.
\<close>

theorem coercion_trims_then_parses:
  assumes "to_numeric (ustr ''123.4'') = Some (FloatVal 123.4)"
    and "to_numeric (ustr ''N/A'') = None"
    and "to_numeric [] = None"
  shows "to_numeric_safe to_numeric fl
           \<lparr>scolumns = [name],
            srows = [(t1, [Str (ustr '' 123.4 '')]), (t2, [Str (ustr ''N/A'')]),
                     (t3, [Str []])]\<rparr> name
         = Float64 [Some 123.4, Some 0, Some 0] \<and>
         (list_all is_space pre \<and> list_all is_space post \<longrightarrow>
            coerce to_numeric (Str (pre @ s @ post)) = coerce to_numeric (Str s) \<and>
            to_numeric_safe to_numeric fl
              \<lparr>scolumns = [name], srows = [(t1, [Str (pre @ s @ post)])]\<rparr> name
            = to_numeric_safe to_numeric fl \<lparr>scolumns = [name], srows = [(t1, [Str s])]\<rparr> name)"
proof -
  have "strip (ustr '' 123.4 '') = ustr ''123.4''" and "strip (ustr ''N/A'') = ustr ''N/A''"
    and "strip [] = []"
    by (simp_all add: strip_def is_space_def)
  with assms have examples: "to_numeric_safe to_numeric fl
           \<lparr>scolumns = [name],
            srows = [(t1, [Str (ustr '' 123.4 '')]), (t2, [Str (ustr ''N/A'')]),
                     (t3, [Str []])]\<rparr> name
         = Float64 [Some 123.4, Some 0, Some 0]"
    by (simp add: to_numeric_safe_def row_cell_def coerce_def to_series_def fill0_def)
  have general: "coerce to_numeric (Str (pre @ s @ post)) = coerce to_numeric (Str s) \<and>
      to_numeric_safe to_numeric fl
              \<lparr>scolumns = [name], srows = [(t1, [Str (pre @ s @ post)])]\<rparr> name
            = to_numeric_safe to_numeric fl \<lparr>scolumns = [name], srows = [(t1, [Str s])]\<rparr> name"
    if "list_all is_space pre" and "list_all is_space post"
    using strip_surrounding [OF that, of s]
    by (simp add: to_numeric_safe_def row_cell_def coerce_def)
  from examples general show ?thesis by blast
qed

theorem coercion_trims_then_parses_witness:
  "sample_to_numeric (ustr ''123.4'') = Some (FloatVal 123.4) \<and>
   sample_to_numeric (ustr ''N/A'') = None \<and>
   sample_to_numeric [] = None \<and>
   list_all is_space [160, 32] \<and> list_all is_space [9, 8195, 160] \<and>
   to_numeric_safe sample_to_numeric small_floats
     \<lparr>scolumns = [''Mem Read (MB/s)''],
      srows = [(Some 36000, [Str (ustr '' 123.4 '')]), (Some 36001, [Str (ustr ''N/A'')]),
               (Some 36002, [Str []])]\<rparr>
     ''Mem Read (MB/s)''
   = Float64 [Some 123.4, Some 0, Some 0] \<and>
   to_numeric_safe sample_to_numeric small_floats
     \<lparr>scolumns = [''Mem Read (MB/s)''],
      srows = [(Some 36000, [Str ([160, 32] @ ustr ''7.5'' @ [9, 8195, 160])])]\<rparr>
     ''Mem Read (MB/s)''
   = Float64 [Some 7.5] \<and>
   to_numeric_safe sample_to_numeric small_floats
     \<lparr>scolumns = [''Mem Read (MB/s)''],
      srows = [(Some 36000, [Str ([160] @ ustr ''7'' @ [160])])]\<rparr>
     ''Mem Read (MB/s)''
   = Int64 [7]"
proof -
  have a: "sample_to_numeric (ustr ''123.4'') = Some (FloatVal 123.4)"
    by (simp add: sample_to_numeric_def unsigned_decimal_def is_digit_def digits_value_def)
  have b: "sample_to_numeric (ustr ''N/A'') = None"
    by (simp add: sample_to_numeric_def unsigned_decimal_def is_digit_def digits_value_def)
  have c: "sample_to_numeric [] = None"
    by (simp add: sample_to_numeric_def unsigned_decimal_def is_digit_def digits_value_def)
  have d: "list_all is_space [160, 32]" and e: "list_all is_space [9, 8195, 160]"
    and d': "list_all is_space [160]"
    by (simp_all add: is_space_def)
  have f: "to_numeric_safe sample_to_numeric small_floats
     \<lparr>scolumns = [''Mem Read (MB/s)''], srows = [(Some 36000, [Str (ustr ''7.5'')])]\<rparr>
     ''Mem Read (MB/s)'' = Float64 [Some 7.5]"
    by (simp add: to_numeric_safe_def row_cell_def coerce_def to_series_def fill0_def
        strip_def is_space_def sample_to_numeric_def unsigned_decimal_def is_digit_def
        digits_value_def)
  have g: "to_numeric_safe sample_to_numeric small_floats
     \<lparr>scolumns = [''Mem Read (MB/s)''], srows = [(Some 36000, [Str (ustr ''7'')])]\<rparr>
     ''Mem Read (MB/s)'' = Int64 [7]"
    by (simp add: to_numeric_safe_def row_cell_def coerce_def to_series_def fill0_def
        strip_def is_space_def sample_to_numeric_def unsigned_decimal_def is_digit_def
        digits_value_def)
  note th = coercion_trims_then_parses [OF a b c]
  from th [of small_floats "''Mem Read (MB/s)''" "Some 36000" "Some 36001" "Some 36002"
      "[160, 32]" "[9, 8195, 160]" "ustr ''7.5''"] d e f
  have r1: "to_numeric_safe sample_to_numeric small_floats
     \<lparr>scolumns = [''Mem Read (MB/s)''],
      srows = [(Some 36000, [Str ([160, 32] @ ustr ''7.5'' @ [9, 8195, 160])])]\<rparr>
     ''Mem Read (MB/s)'' = Float64 [Some 7.5]"
    by simp
  from th [of small_floats "''Mem Read (MB/s)''" "Some 36000" "Some 36001" "Some 36002"
      "[160]" "[160]" "ustr ''7''"] d' g
  have r2: "to_numeric_safe sample_to_numeric small_floats
     \<lparr>scolumns = [''Mem Read (MB/s)''],
      srows = [(Some 36000, [Str ([160] @ ustr ''7'' @ [160])])]\<rparr>
     ''Mem Read (MB/s)'' = Int64 [7]"
    by simp
  from th [of small_floats "''Mem Read (MB/s)''" "Some 36000" "Some 36001" "Some 36002"]
  have r0: "to_numeric_safe sample_to_numeric small_floats
     \<lparr>scolumns = [''Mem Read (MB/s)''],
      srows = [(Some 36000, [Str (ustr '' 123.4 '')]), (Some 36001, [Str (ustr ''N/A'')]),
               (Some 36002, [Str []])]\<rparr>
     ''Mem Read (MB/s)'' = Float64 [Some 123.4, Some 0, Some 0]"
    by blast
  from a b c d e r0 r1 r2 show ?thesis by simp
qed

text \<open>
  C6. For every socket of a table: a direct metric column that the socket does not have
  gives an all-zero series as long as the index, and a socket without any column that
  starts with \<^verbatim>\<open>CXL.\<close> gives all-zero \<^verbatim>\<open>CXL_Read\<close> and \<^verbatim>\<open>CXL_Write\<close> series
  of that length.
\<close>

theorem missing_sources_are_zero_series:
  "((skt, ''Mem Read (MB/s)'') \<notin> set (tcolumns t) \<longrightarrow>
      DRAM_Read (all_skt_data to_numeric fl t skt) = Int64 (replicate (length (trows t)) 0)) \<and>
   ((skt, ''Mem Write (MB/s)'') \<notin> set (tcolumns t) \<longrightarrow>
      DRAM_Write (all_skt_data to_numeric fl t skt) = Int64 (replicate (length (trows t)) 0)) \<and>
   ((skt, ''PMM_Read (MB/s)'') \<notin> set (tcolumns t) \<longrightarrow>
      PMM_Read (all_skt_data to_numeric fl t skt) = Int64 (replicate (length (trows t)) 0)) \<and>
   ((skt, ''PMM_Write (MB/s)'') \<notin> set (tcolumns t) \<longrightarrow>
      PMM_Write (all_skt_data to_numeric fl t skt) = Int64 (replicate (length (trows t)) 0)) \<and>
   ((\<forall>k \<in> set (tcolumns t). fst k = skt \<longrightarrow> \<not> startswith (snd k) ''CXL.'') \<longrightarrow>
      CXL_Read (all_skt_data to_numeric fl t skt) = Int64 (replicate (length (trows t)) 0) \<and>
      CXL_Write (all_skt_data to_numeric fl t skt) = Int64 (replicate (length (trows t)) 0)) \<and>
   length (pd_index (all_skt_data to_numeric fl t skt)) = length (trows t)"
proof -
  have direct: "to_numeric_safe to_numeric fl (select_socket t skt) name
      = Int64 (replicate (length (trows t)) 0)"
    if "(skt, name) \<notin> set (tcolumns t)" for name
    using that by (simp add: to_numeric_safe_absent scolumns_select length_srows_select)
  have cxl: "cxl_sum to_numeric fl (select_socket t skt)
        (filter P (cxl_cols (select_socket t skt)))
      = Int64 (replicate (length (trows t)) 0)"
    if "\<forall>k \<in> set (tcolumns t). fst k = skt \<longrightarrow> \<not> startswith (snd k) ''CXL.''" for P
    using cxl_cols_select_empty [OF that] by (simp add: cxl_sum_def length_srows_select)
  show ?thesis
    using direct cxl
    by (simp add: all_skt_data_def extract_series_def cxl_read_cols_def cxl_write_cols_def
        length_srows_select)
qed

theorem missing_sources_are_zero_series_witness:
  "(''SKT0'', ''Mem Read (MB/s)'') \<notin> set (tcolumns other_table) \<and>
   (''SKT0'', ''Mem Write (MB/s)'') \<notin> set (tcolumns other_table) \<and>
   (''SKT0'', ''PMM_Read (MB/s)'') \<notin> set (tcolumns other_table) \<and>
   (''SKT0'', ''PMM_Write (MB/s)'') \<notin> set (tcolumns other_table) \<and>
   list_all (\<lambda>k. \<not> (fst k = ''SKT0'' \<and> startswith (snd k) ''CXL.'')) (tcolumns other_table) \<and>
   length (trows other_table) = 2 \<and>
   DRAM_Read (all_skt_data sample_to_numeric small_floats other_table ''SKT0'') = Int64 [0, 0] \<and>
   DRAM_Write (all_skt_data sample_to_numeric small_floats other_table ''SKT0'') = Int64 [0, 0] \<and>
   PMM_Read (all_skt_data sample_to_numeric small_floats other_table ''SKT0'') = Int64 [0, 0] \<and>
   PMM_Write (all_skt_data sample_to_numeric small_floats other_table ''SKT0'') = Int64 [0, 0] \<and>
   CXL_Read (all_skt_data sample_to_numeric small_floats other_table ''SKT0'') = Int64 [0, 0] \<and>
   CXL_Write (all_skt_data sample_to_numeric small_floats other_table ''SKT0'') = Int64 [0, 0]"
  using missing_sources_are_zero_series [of "''SKT0''" other_table sample_to_numeric small_floats]
  by (simp add: other_table_def numeral_2_eq_2)

text \<open>
  C7. For every socket, the frame of derived series has the index of the source table, and
  each of the six series has one entry per index entry, none of them NaN.
\<close>

theorem derived_series_defined_on_index:
  "pd_index (all_skt_data to_numeric fl t skt) = map fst (trows t) \<and>
   list_all (\<lambda>s. series_len s = length (trows t) \<and> \<not> has_nan s)
     [DRAM_Read (all_skt_data to_numeric fl t skt), DRAM_Write (all_skt_data to_numeric fl t skt),
      PMM_Read (all_skt_data to_numeric fl t skt), PMM_Write (all_skt_data to_numeric fl t skt),
      CXL_Read (all_skt_data to_numeric fl t skt), CXL_Write (all_skt_data to_numeric fl t skt)]"
  by (simp add: all_skt_data_def extract_series_def srows_select_fst series_len_to_numeric_safe
      to_numeric_safe_no_nan series_len_cxl_sum cxl_sum_no_nan length_srows_select)

subsection \<open>Which lines are plotted\<close>

lemma distinct_detect_sockets: "distinct (detect_sockets t)"
  by (simp add: detect_sockets_def)

lemma csv_normalizer_sockets:
  "csv_normalizer to_datetime df = Inr (t, sockets) \<Longrightarrow> distinct sockets"
  by (auto elim!: csv_normalizer_Inr simp: distinct_detect_sockets)

lemma lines_of_chart:
  assumes "parse_bandwidth_csv to_datetime to_numeric fl (Frame df) mode = Inr c"
    and "csv_normalizer to_datetime df = Inr (t, sockets)"
  shows "lines c =
     concat (map (\<lambda>skt. plot_socket fl mode skt (all_skt_data to_numeric fl t skt)) sockets)"
  using assms by (auto simp: parse_bandwidth_csv_def)

lemma other_suffix: "s \<noteq> [] \<Longrightarrow> s' \<noteq> [] \<Longrightarrow> last s \<noteq> last s' \<Longrightarrow> (a @ s = b @ s') = False"
  by (metis last_appendR)

lemma socket_tier_lines_concat:
  assumes "distinct sockets" and "skt \<in> set sockets"
    and "\<And>skt'. skt' \<noteq> skt \<Longrightarrow> socket_tier_lines skt tr (f skt') = []"
  shows "socket_tier_lines skt tr (concat (map f sockets)) = socket_tier_lines skt tr (f skt)"
  using assms(1,2)
proof (induction sockets)
  case Nil
  then show ?case by simp
next
  case (Cons a sockets)
  have app: "socket_tier_lines skt tr (xs @ ys) =
      socket_tier_lines skt tr xs @ socket_tier_lines skt tr ys" for xs ys
    by (simp add: socket_tier_lines_def)
  have nil: "socket_tier_lines skt tr [] = []"
    by (simp add: socket_tier_lines_def)
  show ?case
  proof (cases "a = skt")
    case True
    with Cons.prems have "skt \<notin> set sockets" by simp
    then have "socket_tier_lines skt tr (concat (map f sockets)) = []"
      using assms(3) by (induction sockets) (auto simp: app nil)
    with True show ?thesis by (simp add: app)
  next
    case False
    with Cons have "socket_tier_lines skt tr (concat (map f sockets)) =
        socket_tier_lines skt tr (f skt)"
      by simp
    with False assms(3) [of a] show ?thesis by (simp add: app)
  qed
qed

lemma pmm_lines_of_plot_socket:
  "socket_tier_lines skt PMM (plot_socket fl mode skt' data) =
     (if skt' = skt \<and> sum_is_positive fl (PMM_Read data) (PMM_Write data)
      then (if mode = ''total''
            then [\<lparr>line_x = pd_index data,
                   line_y = series_add fl (PMM_Read data) (PMM_Write data),
                   label = skt @ '' PMM Total'', color = ''tab:orange'', linestyle = ''solid''\<rparr>]
            else [\<lparr>line_x = pd_index data, line_y = PMM_Read data,
                   label = skt @ '' PMM Read'', color = ''tab:orange'', linestyle = ''-''\<rparr>,
                  \<lparr>line_x = pd_index data, line_y = PMM_Write data,
                   label = skt @ '' PMM Write'', color = ''tab:orange'', linestyle = ''--''\<rparr>])
      else [])"
  by (simp add: socket_tier_lines_def plot_socket_def tier_labels_def other_suffix)

lemma cxl_lines_of_plot_socket:
  "socket_tier_lines skt CXL (plot_socket fl mode skt' data) =
     (if skt' = skt \<and> sum_is_positive fl (CXL_Read data) (CXL_Write data)
      then (if mode = ''total''
            then [\<lparr>line_x = pd_index data,
                   line_y = series_add fl (CXL_Read data) (CXL_Write data),
                   label = skt @ '' CXL Total'', color = ''tab:green'', linestyle = ''solid''\<rparr>]
            else [\<lparr>line_x = pd_index data, line_y = CXL_Read data,
                   label = skt @ '' CXL Read'', color = ''tab:green'', linestyle = ''-''\<rparr>,
                  \<lparr>line_x = pd_index data, line_y = CXL_Write data,
                   label = skt @ '' CXL Write'', color = ''tab:green'', linestyle = ''--''\<rparr>])
      else [])"
  by (simp add: socket_tier_lines_def plot_socket_def tier_labels_def other_suffix)

subsection \<open>The test \<^verbatim>\<open>r.sum() + w.sum() > 0\<close>\<close>

lemma wrap64_id: "- (2 ^ 63) \<le> n \<Longrightarrow> n < 2 ^ 63 \<Longrightarrow> wrap64 n = n"
  by (simp add: wrap64_def)

lemma sum_is_positive_int64:
  assumes "- (2 ^ 63) \<le> sum_list xs" and "sum_list xs < 2 ^ 63"
    and "- (2 ^ 63) \<le> sum_list ys" and "sum_list ys < 2 ^ 63"
    and "- (2 ^ 63) \<le> sum_list xs + sum_list ys" and "sum_list xs + sum_list ys < 2 ^ 63"
  shows "sum_is_positive fl (Int64 xs) (Int64 ys) = (0 < sum_list xs + sum_list ys)"
  using assms by (simp add: sum_is_positive_def wrap64_id)

lemma sum_list_nonneg_int: "\<forall>x \<in> set xs. (0::int) \<le> x \<Longrightarrow> 0 \<le> sum_list xs"
  by (induction xs) auto

lemma sum_list_pos_int:
  "\<forall>x \<in> set xs. (0::int) \<le> x \<Longrightarrow> \<exists>x \<in> set xs. x \<noteq> 0 \<Longrightarrow> 0 < sum_list xs"
proof (induction xs)
  case Nil
  then show ?case by simp
next
  case (Cons a xs)
  have tl: "0 \<le> sum_list xs"
    using Cons.prems(1) by (simp add: sum_list_nonneg_int)
  show ?case
  proof (cases "a = 0")
    case True
    with Cons show ?thesis by auto
  next
    case False
    with Cons.prems(1) have "0 < a" by simp
    with tl show ?thesis by simp
  qed
qed

lemma sum_is_positive_nonneg_int64:
  assumes "\<forall>x \<in> set (xs @ ys). 0 \<le> x" and "\<exists>x \<in> set (xs @ ys). x \<noteq> 0"
    and "sum_list xs + sum_list ys < 2 ^ 63"
  shows "sum_is_positive fl (Int64 xs) (Int64 ys)"
proof -
  have x: "0 \<le> sum_list xs" and y: "0 \<le> sum_list ys"
    using assms(1) by (simp_all add: sum_list_nonneg_int)
  have "0 < sum_list (xs @ ys)"
    using assms(1,2) by (rule sum_list_pos_int)
  then have pos: "0 < sum_list xs + sum_list ys" by simp
  have "sum_is_positive fl (Int64 xs) (Int64 ys) = (0 < sum_list xs + sum_list ys)"
    using x y assms(3) by (intro sum_is_positive_int64) simp_all
  with pos show ?thesis by simp
qed

lemma sum_list_zeros: "list_all (\<lambda>x. x = 0) xs \<Longrightarrow> sum_list xs = (0::int)"
  by (induction xs) auto

lemma nan_to_zero_zeros:
  "list_all (\<lambda>v. v = Some 0) xs \<Longrightarrow> map nan_to_zero xs = replicate (length xs) 0"
  by (induction xs) (auto simp: nan_to_zero_def)

lemma series_total_zero:
  assumes "all_zero s" and "zeros_stay_zero fl"
  shows "series_total fl s = IntVal 0 \<or> series_total fl s = FloatVal 0"
proof (cases s)
  case (Int64 xs)
  with assms(1) have "sum_list xs = 0"
    by (simp add: sum_list_zeros)
  with Int64 show ?thesis by (simp add: wrap64_def)
next
  case (Float64 xs)
  with assms(1) have "map nan_to_zero xs = replicate (length xs) 0"
    by (simp add: nan_to_zero_zeros)
  with Float64 assms(2) show ?thesis by (simp add: zeros_stay_zero_def)
qed

lemma all_zero_not_positive:
  assumes "all_zero r" and "all_zero w" and "zeros_stay_zero fl"
  shows "\<not> sum_is_positive fl r w"
  using series_total_zero [OF assms(1,3)] series_total_zero [OF assms(2,3)] assms(3)
  by (auto simp: sum_is_positive_def zeros_stay_zero_def wrap64_def)

lemma pmm_lines_of_chart:
  assumes "parse_bandwidth_csv to_datetime to_numeric fl (Frame df) mode = Inr c"
    and "csv_normalizer to_datetime df = Inr (t, sockets)"
    and "skt \<in> set sockets"
  shows "socket_tier_lines skt PMM (lines c) =
     socket_tier_lines skt PMM (plot_socket fl mode skt (all_skt_data to_numeric fl t skt))"
  unfolding lines_of_chart [OF assms(1,2)]
  using csv_normalizer_sockets [OF assms(2)] assms(3)
  by (rule socket_tier_lines_concat) (simp add: pmm_lines_of_plot_socket)

lemma cxl_lines_of_chart:
  assumes "parse_bandwidth_csv to_datetime to_numeric fl (Frame df) mode = Inr c"
    and "csv_normalizer to_datetime df = Inr (t, sockets)"
    and "skt \<in> set sockets"
  shows "socket_tier_lines skt CXL (lines c) =
     socket_tier_lines skt CXL (plot_socket fl mode skt (all_skt_data to_numeric fl t skt))"
  unfolding lines_of_chart [OF assms(1,2)]
  using csv_normalizer_sockets [OF assms(2)] assms(3)
  by (rule socket_tier_lines_concat) (simp add: cxl_lines_of_plot_socket)

lemma sum_list_pos_int_ex: "list_all (\<lambda>x. (0::int) \<le> x) xs \<Longrightarrow> list_ex (\<lambda>x. 0 < x) xs \<Longrightarrow> 0 < sum_list xs"
proof -
  assume a: "list_all (\<lambda>x. (0::int) \<le> x) xs" and b: "list_ex (\<lambda>x. 0 < x) xs"
  from a have nn: "\<forall>x \<in> set xs. 0 \<le> x" by (simp add: list_all_iff)
  from b obtain x where "x \<in> set xs" "0 < x" by (auto simp: list_ex_iff)
  then have "x \<in> set xs" "x \<noteq> 0" by simp_all
  then have "\<exists>x \<in> set xs. x \<noteq> 0" by blast
  with nn show ?thesis by (rule sum_list_pos_int)
qed

lemma int_total_sign:
  assumes "list_all (\<lambda>x. (0::int) \<le> x) xs" and "sum_list xs < 2 ^ 63"
  shows "series_total fl (Int64 xs) = IntVal (sum_list xs)" and "0 \<le> sum_list xs"
    and "list_ex (\<lambda>x. 0 < x) xs \<Longrightarrow> 0 < sum_list xs"
proof -
  show nn: "0 \<le> sum_list xs"
    using assms(1) by (simp add: sum_list_nonneg_int list_all_iff)
  with assms(2) show "series_total fl (Int64 xs) = IntVal (sum_list xs)"
    by (simp add: wrap64_id)
  show "0 < sum_list xs" if "list_ex (\<lambda>x. 0 < x) xs"
    using assms(1) that by (rule sum_list_pos_int_ex)
qed

lemma float_total_sign:
  assumes "list_all (\<lambda>v. 0 \<le> nan_to_zero v) xs" and "sums_keep_sign fl"
  shows "0 \<le> float_sum fl (map nan_to_zero xs)"
    and "list_ex (\<lambda>v. 0 < nan_to_zero v) xs \<Longrightarrow> 0 < float_sum fl (map nan_to_zero xs)"
proof -
  have nn: "list_all (\<lambda>x. 0 \<le> x) (map nan_to_zero xs)"
    using assms(1) by (simp add: list_all_iff)
  from assms(2) nn show "0 \<le> float_sum fl (map nan_to_zero xs)"
    unfolding sums_keep_sign_def by blast
  show "0 < float_sum fl (map nan_to_zero xs)" if "list_ex (\<lambda>v. 0 < nan_to_zero v) xs"
  proof -
    from that have "list_ex (\<lambda>x. 0 < x) (map nan_to_zero xs)"
      by (simp add: list_ex_iff)
    with assms(2) nn show ?thesis
      unfolding sums_keep_sign_def by blast
  qed
qed

lemma series_total_sign:
  assumes "nonneg s" and "int_total s < 2 ^ 63" and "sums_keep_sign fl"
  shows "0 \<le> as_float fl (series_total fl s)"
    and "some_positive s \<Longrightarrow> 0 < as_float fl (series_total fl s)"
proof -
  have conv: "(0 \<le> n \<longrightarrow> 0 \<le> float_of_int fl n) \<and> (0 < n \<longrightarrow> 0 < float_of_int fl n)" for n
    using assms(3) unfolding sums_keep_sign_def by blast
  show "0 \<le> as_float fl (series_total fl s)"
  proof (cases s)
    case (Int64 xs)
    with assms(1,2) int_total_sign [of xs] conv [of "sum_list xs"] show ?thesis by simp
  next
    case (Float64 xs)
    with assms(1,3) float_total_sign [of xs fl] show ?thesis by simp
  qed
  show "0 < as_float fl (series_total fl s)" if "some_positive s"
  proof (cases s)
    case (Int64 xs)
    with assms(1,2) that int_total_sign [of xs] conv [of "sum_list xs"] show ?thesis by simp
  next
    case (Float64 xs)
    with assms(1,3) that float_total_sign [of xs fl] show ?thesis by simp
  qed
qed

lemma int_total_nonneg: "nonneg s \<Longrightarrow> 0 \<le> int_total s"
  by (cases s) (simp_all add: sum_list_nonneg_int list_all_iff)

lemma sum_is_positive_nonneg:
  assumes "nonneg r" and "nonneg w" and "some_positive r \<or> some_positive w"
    and "int_total r + int_total w < 2 ^ 63" and "sums_keep_sign fl"
  shows "sum_is_positive fl r w"
proof -
  have r63: "int_total r < 2 ^ 63" and w63: "int_total w < 2 ^ 63"
    using int_total_nonneg [OF assms(1)] int_total_nonneg [OF assms(2)] assms(4) by simp_all
  show ?thesis
  proof (cases "\<exists>xs ys. r = Int64 xs \<and> w = Int64 ys")
    case True
    then obtain xs ys where rw: "r = Int64 xs" "w = Int64 ys" by blast
    have "sum_is_positive fl (Int64 xs) (Int64 ys)"
    proof (rule sum_is_positive_nonneg_int64)
      show "\<forall>x \<in> set (xs @ ys). 0 \<le> x"
        using assms(1,2) rw by (auto simp: list_all_iff)
      from assms(3) rw obtain x where "x \<in> set (xs @ ys)" "0 < x"
        by (auto simp: list_ex_iff)
      then have "x \<in> set (xs @ ys)" "x \<noteq> 0" by simp_all
      then show "\<exists>x \<in> set (xs @ ys). x \<noteq> 0" by blast
      show "sum_list xs + sum_list ys < 2 ^ 63"
        using assms(4) rw by simp
    qed
    with rw show ?thesis by simp
  next
    case False
    have add: "number_add fl (series_total fl r) (series_total fl w) =
        FloatVal (float_add fl (as_float fl (series_total fl r)) (as_float fl (series_total fl w)))"
      using False by (cases r; cases w) simp_all
    note rs = series_total_sign [OF assms(1) r63 assms(5)]
    note ws = series_total_sign [OF assms(2) w63 assms(5)]
    have "0 < as_float fl (series_total fl r) \<or> 0 < as_float fl (series_total fl w)"
      using assms(3) rs(2) ws(2) by blast
    with rs(1) ws(1) assms(5)
    have "0 < float_add fl (as_float fl (series_total fl r)) (as_float fl (series_total fl w))"
      unfolding sums_keep_sign_def by blast
    with add show ?thesis by (simp add: sum_is_positive_def)
  qed
qed

lemma sums_keep_sign_small_floats: "sums_keep_sign small_floats"
proof -
  have nn: "0 \<le> sum_list xs" if "list_all (\<lambda>x. (0::real) \<le> x) xs" for xs
    using that by (induction xs) auto
  have pos: "0 < sum_list xs"
    if "list_all (\<lambda>x. (0::real) \<le> x) xs" "list_ex (\<lambda>x. 0 < x) xs" for xs
    using that
  proof (induction xs)
    case Nil
    then show ?case by simp
  next
    case (Cons a xs)
    from Cons.prems(1) have a: "0 \<le> a" and tl: "0 \<le> sum_list xs"
      using nn [of xs] by simp_all
    show ?case
    proof (cases "0 < a")
      case True
      with tl show ?thesis by simp
    next
      case False
      with Cons.prems have "list_all (\<lambda>x. 0 \<le> x) xs" "list_ex (\<lambda>x. 0 < x) xs" by simp_all
      then have "0 < sum_list xs" by (rule Cons.IH)
      with a show ?thesis by simp
    qed
  qed
  from nn pos show ?thesis
    by (auto simp: sums_keep_sign_def small_floats_def)
qed

subsection \<open>The examples with PMM columns\<close>

lemma pmm_frame_normalized:
  "csv_normalizer sample_to_datetime (pmm_frame r w) = Inr (pmm_table r w, [''SKT0''])"
  by (simp add: normalizer_defs pmm_frame_def pmm_table_def del: set_filter)

lemma int_pmm_frame_normalized:
  "csv_normalizer sample_to_datetime (int_pmm_frame [r1, r2] [w1, w2]) =
     Inr (int_pmm_table [r1, r2] [w1, w2], [''SKT0''])"
  by (simp add: normalizer_defs int_pmm_frame_def int_pmm_table_def del: set_filter)

lemma pmm_table_series:
  "all_skt_data to_numeric fl (pmm_table r w) ''SKT0'' =
     \<lparr>pd_index = [Some 36000], DRAM_Read = Float64 [Some 100], DRAM_Write = Float64 [Some 50],
      PMM_Read = Float64 [Some r], PMM_Write = Float64 [Some w],
      CXL_Read = Int64 [0], CXL_Write = Int64 [0]\<rparr>"
  by (simp add: series_defs pmm_table_def pmm_columns_def dram_columns_def del: set_filter)

lemma int_pmm_table_series:
  "all_skt_data to_numeric fl (int_pmm_table [r1, r2] [w1, w2]) ''SKT0'' =
     \<lparr>pd_index = [Some 36000, Some 36000], DRAM_Read = Int64 [100, 100],
      DRAM_Write = Int64 [50, 50], PMM_Read = Int64 [r1, r2], PMM_Write = Int64 [w1, w2],
      CXL_Read = Int64 [0, 0], CXL_Write = Int64 [0, 0]\<rparr>"
  by (simp add: series_defs int_pmm_table_def pmm_columns_def dram_columns_def del: set_filter)

lemma pmm_frame_chart:
  "parse_bandwidth_csv sample_to_datetime to_numeric fl (Frame (pmm_frame r w)) mode =
     Inr \<lparr>stdout = [''Sockets detected: SKT0'', ''Mode: '' @ mode],
          lines = plot_socket fl mode ''SKT0'' (all_skt_data to_numeric fl (pmm_table r w) ''SKT0''),
          title = ''Memory Bandwidth per Socket'', savefig = ''bandwidth.png''\<rparr>"
  by (simp add: parse_bandwidth_csv_def pmm_frame_normalized)

lemma int_pmm_frame_chart:
  "parse_bandwidth_csv sample_to_datetime to_numeric fl
       (Frame (int_pmm_frame [r1, r2] [w1, w2])) mode =
     Inr \<lparr>stdout = [''Sockets detected: SKT0'', ''Mode: '' @ mode],
          lines = plot_socket fl mode ''SKT0''
                    (all_skt_data to_numeric fl (int_pmm_table [r1, r2] [w1, w2]) ''SKT0''),
          title = ''Memory Bandwidth per Socket'', savefig = ''bandwidth.png''\<rparr>"
  by (simp add: parse_bandwidth_csv_def int_pmm_frame_normalized)

lemma zeros_stay_zero_small_floats: "zeros_stay_zero small_floats"
proof -
  have "sum_list (replicate n (0::real)) = 0" for n
    by (induction n) simp_all
  then show ?thesis
    by (simp add: zeros_stay_zero_def small_floats_def)
qed

subsection \<open>PMM lines in the two modes\<close>

text \<open>
  C3, as the specification states it: a socket with nonzero PMM data gets one PMM line in
  mode \<^verbatim>\<open>total\<close> and two in mode \<^verbatim>\<open>rw\<close>. A socket whose PMM read column
  holds \<open>-5\<close> in both rows, beside a PMM write column of zeros, has nonzero PMM data, and
  the chart has the DRAM lines only, in both modes.
\<close>

theorem negative_pmm_is_not_plotted:
  "csv_normalizer sample_to_datetime (int_pmm_frame [- 5, - 5] [0, 0]) =
     Inr (int_pmm_table [- 5, - 5] [0, 0], [''SKT0'']) \<and>
   PMM_Read (all_skt_data sample_to_numeric small_floats (int_pmm_table [- 5, - 5] [0, 0]) ''SKT0'')
     = Int64 [- 5, - 5] \<and>
   PMM_Write (all_skt_data sample_to_numeric small_floats (int_pmm_table [- 5, - 5] [0, 0]) ''SKT0'')
     = Int64 [0, 0] \<and>
   parse_bandwidth_csv sample_to_datetime sample_to_numeric small_floats
       (Frame (int_pmm_frame [- 5, - 5] [0, 0])) ''total'' =
     Inr \<lparr>stdout = [''Sockets detected: SKT0'', ''Mode: total''],
          lines = [\<lparr>line_x = [Some 36000, Some 36000], line_y = Int64 [150, 150],
                    label = ''SKT0 DRAM Total'', color = ''tab:red'', linestyle = ''solid''\<rparr>],
          title = ''Memory Bandwidth per Socket'', savefig = ''bandwidth.png''\<rparr> \<and>
   parse_bandwidth_csv sample_to_datetime sample_to_numeric small_floats
       (Frame (int_pmm_frame [- 5, - 5] [0, 0])) ''rw'' =
     Inr \<lparr>stdout = [''Sockets detected: SKT0'', ''Mode: rw''],
          lines = [\<lparr>line_x = [Some 36000, Some 36000], line_y = Int64 [100, 100],
                    label = ''SKT0 DRAM Read'', color = ''tab:red'', linestyle = ''-''\<rparr>,
                   \<lparr>line_x = [Some 36000, Some 36000], line_y = Int64 [50, 50],
                    label = ''SKT0 DRAM Write'', color = ''tab:red'', linestyle = ''--''\<rparr>],
          title = ''Memory Bandwidth per Socket'', savefig = ''bandwidth.png''\<rparr>"
  by (simp add: int_pmm_frame_normalized int_pmm_frame_chart int_pmm_table_series plot_socket_def
      sum_is_positive_def wrap64_def)

text \<open>
  C3, amended: in a run that reaches the chart, for every socket detected,
  \<^item> when the PMM read and write series are both all-zero (and float64 sums of zeros are
    zero), the chart has no PMM line of the socket, in any mode;
  \<^item> when the sum of the PMM read series plus the sum of the PMM write series, as the
    program computes them (\<open>sum_is_positive\<close>: int64 sums wrap around, float64 sums
    round), is greater than zero, the chart has exactly one PMM line of the socket in mode
    \<^verbatim>\<open>total\<close> and exactly two in every other mode, \<^verbatim>\<open>rw\<close> among them;
  \<^item> that is the case when no PMM value of the socket is negative, at least one is
    positive, the exact sums of its int64 PMM series add up to less than \<open>2 ^ 63\<close>
    (no int64 overflow), and float64 arithmetic keeps signs.
\<close>

theorem pmm_lines_by_mode:
  assumes "parse_bandwidth_csv to_datetime to_numeric fl (Frame df) mode = Inr c"
    and "csv_normalizer to_datetime df = Inr (t, sockets)"
    and "skt \<in> set sockets"
    and "r = PMM_Read (all_skt_data to_numeric fl t skt)"
    and "w = PMM_Write (all_skt_data to_numeric fl t skt)"
  shows "(all_zero r \<and> all_zero w \<and> zeros_stay_zero fl \<longrightarrow>
            socket_tier_lines skt PMM (lines c) = []) \<and>
         (sum_is_positive fl r w \<longrightarrow>
            length (socket_tier_lines skt PMM (lines c)) = (if mode = ''total'' then 1 else 2)) \<and>
         (nonneg r \<and> nonneg w \<and> (some_positive r \<or> some_positive w) \<and>
          int_total r + int_total w < 2 ^ 63 \<and> sums_keep_sign fl \<longrightarrow>
            length (socket_tier_lines skt PMM (lines c)) = (if mode = ''total'' then 1 else 2))"
proof -
  note chart = pmm_lines_of_chart [OF assms(1-3)]
  have zero: "socket_tier_lines skt PMM (lines c) = []"
    if "all_zero r" "all_zero w" "zeros_stay_zero fl"
    using all_zero_not_positive [OF that]
    by (simp add: chart pmm_lines_of_plot_socket assms(4,5))
  have pos: "length (socket_tier_lines skt PMM (lines c)) = (if mode = ''total'' then 1 else 2)"
    if "sum_is_positive fl r w"
    using that by (simp add: chart pmm_lines_of_plot_socket assms(4,5))
  have signs: "length (socket_tier_lines skt PMM (lines c)) = (if mode = ''total'' then 1 else 2)"
    if "nonneg r" "nonneg w" "some_positive r \<or> some_positive w"
      "int_total r + int_total w < 2 ^ 63" "sums_keep_sign fl"
    using that by (intro pos sum_is_positive_nonneg)
  from zero pos signs show ?thesis by blast
qed

theorem pmm_lines_by_mode_witness:
  "csv_normalizer sample_to_datetime (pmm_frame 0 0) = Inr (pmm_table 0 0, [''SKT0'']) \<and>
   all_zero (PMM_Read (all_skt_data sample_to_numeric small_floats (pmm_table 0 0) ''SKT0'')) \<and>
   all_zero (PMM_Write (all_skt_data sample_to_numeric small_floats (pmm_table 0 0) ''SKT0'')) \<and>
   zeros_stay_zero small_floats \<and>
   socket_tier_lines ''SKT0'' PMM
     (lines (projr (parse_bandwidth_csv sample_to_datetime sample_to_numeric small_floats
        (Frame (pmm_frame 0 0)) ''rw''))) = [] \<and>
   sum_is_positive small_floats
     (PMM_Read (all_skt_data sample_to_numeric small_floats (pmm_table 30 20) ''SKT0''))
     (PMM_Write (all_skt_data sample_to_numeric small_floats (pmm_table 30 20) ''SKT0'')) \<and>
   length (socket_tier_lines ''SKT0'' PMM
     (lines (projr (parse_bandwidth_csv sample_to_datetime sample_to_numeric small_floats
        (Frame (pmm_frame 30 20)) ''total'')))) = 1 \<and>
   length (socket_tier_lines ''SKT0'' PMM
     (lines (projr (parse_bandwidth_csv sample_to_datetime sample_to_numeric small_floats
        (Frame (pmm_frame 30 20)) ''rw'')))) = 2 \<and>
   PMM_Read (all_skt_data sample_to_numeric small_floats (int_pmm_table [30, 0] [20, 5]) ''SKT0'')
     = Int64 [30, 0] \<and>
   PMM_Write (all_skt_data sample_to_numeric small_floats (int_pmm_table [30, 0] [20, 5]) ''SKT0'')
     = Int64 [20, 5] \<and>
   nonneg (Int64 [30, 0]) \<and> nonneg (Int64 [20, 5]) \<and> some_positive (Int64 [30, 0]) \<and>
   int_total (Int64 [30, 0]) + int_total (Int64 [20, 5]) < 2 ^ 63 \<and>
   sums_keep_sign small_floats \<and>
   length (socket_tier_lines ''SKT0'' PMM
     (lines (projr (parse_bandwidth_csv sample_to_datetime sample_to_numeric small_floats
        (Frame (int_pmm_frame [30, 0] [20, 5])) ''total'')))) = 1 \<and>
   length (socket_tier_lines ''SKT0'' PMM
     (lines (projr (parse_bandwidth_csv sample_to_datetime sample_to_numeric small_floats
        (Frame (int_pmm_frame [30, 0] [20, 5])) ''split'')))) = 2"
proof -
  have skt: "''SKT0'' \<in> set [''SKT0'']" by simp
  define run0 where "run0 = parse_bandwidth_csv sample_to_datetime sample_to_numeric small_floats
      (Frame (pmm_frame 0 0)) ''rw''"
  define run1 where "run1 = parse_bandwidth_csv sample_to_datetime sample_to_numeric small_floats
      (Frame (pmm_frame 30 20)) ''total''"
  define run2 where "run2 = parse_bandwidth_csv sample_to_datetime sample_to_numeric small_floats
      (Frame (pmm_frame 30 20)) ''rw''"
  define run3 where "run3 = parse_bandwidth_csv sample_to_datetime sample_to_numeric small_floats
      (Frame (int_pmm_frame [30, 0] [20, 5])) ''total''"
  define run4 where "run4 = parse_bandwidth_csv sample_to_datetime sample_to_numeric small_floats
      (Frame (int_pmm_frame [30, 0] [20, 5])) ''split''"
  have p0: "parse_bandwidth_csv sample_to_datetime sample_to_numeric small_floats
      (Frame (pmm_frame 0 0)) ''rw'' = Inr (projr run0)"
    and p1: "parse_bandwidth_csv sample_to_datetime sample_to_numeric small_floats
      (Frame (pmm_frame 30 20)) ''total'' = Inr (projr run1)"
    and p2: "parse_bandwidth_csv sample_to_datetime sample_to_numeric small_floats
      (Frame (pmm_frame 30 20)) ''rw'' = Inr (projr run2)"
    by (simp_all add: run0_def run1_def run2_def pmm_frame_chart)
  have p3: "parse_bandwidth_csv sample_to_datetime sample_to_numeric small_floats
      (Frame (int_pmm_frame [30, 0] [20, 5])) ''total'' = Inr (projr run3)"
    and p4: "parse_bandwidth_csv sample_to_datetime sample_to_numeric small_floats
      (Frame (int_pmm_frame [30, 0] [20, 5])) ''split'' = Inr (projr run4)"
    by (simp_all add: run3_def run4_def int_pmm_frame_chart)
  have split: "(''split'' = ''total'') = False" by simp
  have z: "all_zero (PMM_Read (all_skt_data sample_to_numeric small_floats (pmm_table 0 0) ''SKT0''))"
    "all_zero (PMM_Write (all_skt_data sample_to_numeric small_floats (pmm_table 0 0) ''SKT0''))"
    by (simp_all add: pmm_table_series)
  have pos: "sum_is_positive small_floats
     (PMM_Read (all_skt_data sample_to_numeric small_floats (pmm_table 30 20) ''SKT0''))
     (PMM_Write (all_skt_data sample_to_numeric small_floats (pmm_table 30 20) ''SKT0''))"
    by (simp add: pmm_table_series sum_is_positive_def small_floats_def nan_to_zero_def)
  have ints: "PMM_Read (all_skt_data sample_to_numeric small_floats
        (int_pmm_table [30, 0] [20, 5]) ''SKT0'') = Int64 [30, 0]"
    "PMM_Write (all_skt_data sample_to_numeric small_floats
        (int_pmm_table [30, 0] [20, 5]) ''SKT0'') = Int64 [20, 5]"
    by (simp_all add: int_pmm_table_series)
  have signs: "nonneg (Int64 [30, 0])" "nonneg (Int64 [20, 5])" "some_positive (Int64 [30, 0])"
    "int_total (Int64 [30, 0]) + int_total (Int64 [20, 5]) < 2 ^ 63"
    by simp_all
  from pmm_lines_by_mode [OF p0 pmm_frame_normalized skt refl refl] z zeros_stay_zero_small_floats
  have r0: "socket_tier_lines ''SKT0'' PMM (lines (projr run0)) = []" by blast
  from pmm_lines_by_mode [OF p1 pmm_frame_normalized skt refl refl] pos
  have r1: "length (socket_tier_lines ''SKT0'' PMM (lines (projr run1))) = 1"
    by simp
  from pmm_lines_by_mode [OF p2 pmm_frame_normalized skt refl refl] pos
  have r2: "length (socket_tier_lines ''SKT0'' PMM (lines (projr run2))) = 2"
    by simp
  from pmm_lines_by_mode [OF p3 int_pmm_frame_normalized skt ints [symmetric]]
    signs sums_keep_sign_small_floats
  have r3: "length (socket_tier_lines ''SKT0'' PMM (lines (projr run3))) = 1"
    by simp
  from pmm_lines_by_mode [OF p4 int_pmm_frame_normalized skt ints [symmetric]]
    signs sums_keep_sign_small_floats
  have r4: "length (socket_tier_lines ''SKT0'' PMM (lines (projr run4))) = 2"
    by (simp only: split if_False simp_thms)
  from z zeros_stay_zero_small_floats pos ints signs sums_keep_sign_small_floats r0 r1 r2 r3 r4
  show ?thesis
    unfolding run0_def run1_def run2_def run3_def run4_def
    by (simp add: pmm_frame_normalized)
qed

subsection \<open>What gates the lines of a tier\<close>

text \<open>
  C9, as stated: the lines of a tier are plotted exactly when the arithmetic sum of its read
  and write series is greater than zero. The program adds in the arithmetic of the columns.
  With a PMM read column holding \<open>2 ^ 62\<close> in both rows and a PMM write column of
  zeros, both int64, the arithmetic sum is \<open>2 ^ 63\<close>, the int64 sum wraps around to
  \<open>- (2 ^ 63)\<close>, and the chart in mode \<^verbatim>\<open>total\<close> has the DRAM line only.
\<close>

theorem wrapped_sum_is_not_plotted:
  "PMM_Read (all_skt_data sample_to_numeric small_floats
       (int_pmm_table [4611686018427387904, 4611686018427387904] [0, 0]) ''SKT0'')
     = Int64 [4611686018427387904, 4611686018427387904] \<and>
   PMM_Write (all_skt_data sample_to_numeric small_floats
       (int_pmm_table [4611686018427387904, 4611686018427387904] [0, 0]) ''SKT0'')
     = Int64 [0, 0] \<and>
   (0::int) < sum_list [4611686018427387904, 4611686018427387904] + sum_list [0, 0] \<and>
   csv_normalizer sample_to_datetime
       (int_pmm_frame [4611686018427387904, 4611686018427387904] [0, 0]) =
     Inr (int_pmm_table [4611686018427387904, 4611686018427387904] [0, 0], [''SKT0'']) \<and>
   parse_bandwidth_csv sample_to_datetime sample_to_numeric small_floats
       (Frame (int_pmm_frame [4611686018427387904, 4611686018427387904] [0, 0])) ''total'' =
     Inr \<lparr>stdout = [''Sockets detected: SKT0'', ''Mode: total''],
          lines = [\<lparr>line_x = [Some 36000, Some 36000], line_y = Int64 [150, 150],
                    label = ''SKT0 DRAM Total'', color = ''tab:red'', linestyle = ''solid''\<rparr>],
          title = ''Memory Bandwidth per Socket'', savefig = ''bandwidth.png''\<rparr>"
  by (simp add: int_pmm_frame_normalized int_pmm_frame_chart int_pmm_table_series plot_socket_def
      sum_is_positive_def wrap64_def)

text \<open>
  C9, amended: in a run that reaches the chart, for every socket detected and every mode,
  the chart has PMM lines of the socket exactly when the sum of the PMM read series plus
  the sum of the PMM write series is greater than zero, each sum and their sum computed in
  the arithmetic of the columns (int64 with wrap-around when the operands are int64, float64
  otherwise); likewise for CXL. When both series of the tier are int64 and neither sum nor
  their sum leaves the int64 range, that is the arithmetic sum being greater than zero; so
  a tier of such series with nonzero values whose sum is zero or negative has no line.
\<close>

theorem tier_lines_iff_positive_sum:
  assumes "parse_bandwidth_csv to_datetime to_numeric fl (Frame df) mode = Inr c"
    and "csv_normalizer to_datetime df = Inr (t, sockets)"
    and "skt \<in> set sockets"
    and "data = all_skt_data to_numeric fl t skt"
  shows "(socket_tier_lines skt PMM (lines c) \<noteq> []) =
           positive (number_add fl (series_total fl (PMM_Read data))
                                   (series_total fl (PMM_Write data))) \<and>
         (socket_tier_lines skt CXL (lines c) \<noteq> []) =
           positive (number_add fl (series_total fl (CXL_Read data))
                                   (series_total fl (CXL_Write data))) \<and>
         (\<forall>xs ys. PMM_Read data = Int64 xs \<and> PMM_Write data = Int64 ys \<and>
            - (2 ^ 63) \<le> sum_list xs \<and> sum_list xs < 2 ^ 63 \<and>
            - (2 ^ 63) \<le> sum_list ys \<and> sum_list ys < 2 ^ 63 \<and>
            - (2 ^ 63) \<le> sum_list xs + sum_list ys \<and> sum_list xs + sum_list ys < 2 ^ 63 \<longrightarrow>
            (socket_tier_lines skt PMM (lines c) \<noteq> []) = (0 < sum_list xs + sum_list ys)) \<and>
         (\<forall>xs ys. CXL_Read data = Int64 xs \<and> CXL_Write data = Int64 ys \<and>
            - (2 ^ 63) \<le> sum_list xs \<and> sum_list xs < 2 ^ 63 \<and>
            - (2 ^ 63) \<le> sum_list ys \<and> sum_list ys < 2 ^ 63 \<and>
            - (2 ^ 63) \<le> sum_list xs + sum_list ys \<and> sum_list xs + sum_list ys < 2 ^ 63 \<longrightarrow>
            (socket_tier_lines skt CXL (lines c) \<noteq> []) = (0 < sum_list xs + sum_list ys))"
proof -
  have pmm: "(socket_tier_lines skt PMM (lines c) \<noteq> []) =
      sum_is_positive fl (PMM_Read data) (PMM_Write data)"
    by (simp add: pmm_lines_of_chart [OF assms(1-3)] pmm_lines_of_plot_socket assms(4))
  have cxl: "(socket_tier_lines skt CXL (lines c) \<noteq> []) =
      sum_is_positive fl (CXL_Read data) (CXL_Write data)"
    by (simp add: cxl_lines_of_chart [OF assms(1-3)] cxl_lines_of_plot_socket assms(4))
  have ints: "(socket_tier_lines skt PMM (lines c) \<noteq> []) = (0 < sum_list xs + sum_list ys)"
    if "PMM_Read data = Int64 xs" "PMM_Write data = Int64 ys"
      "- (2 ^ 63) \<le> sum_list xs" "sum_list xs < 2 ^ 63"
      "- (2 ^ 63) \<le> sum_list ys" "sum_list ys < 2 ^ 63"
      "- (2 ^ 63) \<le> sum_list xs + sum_list ys" "sum_list xs + sum_list ys < 2 ^ 63" for xs ys
    using sum_is_positive_int64 [OF that(3-8), of fl] that(1,2) pmm by simp
  have ints': "(socket_tier_lines skt CXL (lines c) \<noteq> []) = (0 < sum_list xs + sum_list ys)"
    if "CXL_Read data = Int64 xs" "CXL_Write data = Int64 ys"
      "- (2 ^ 63) \<le> sum_list xs" "sum_list xs < 2 ^ 63"
      "- (2 ^ 63) \<le> sum_list ys" "sum_list ys < 2 ^ 63"
      "- (2 ^ 63) \<le> sum_list xs + sum_list ys" "sum_list xs + sum_list ys < 2 ^ 63" for xs ys
    using sum_is_positive_int64 [OF that(3-8), of fl] that(1,2) cxl by simp
  from pmm cxl ints ints' show ?thesis
    unfolding sum_is_positive_def by blast
qed

theorem tier_lines_iff_positive_sum_witness:
  "csv_normalizer sample_to_datetime (int_pmm_frame [5, - 5] [0, 0]) =
     Inr (int_pmm_table [5, - 5] [0, 0], [''SKT0'']) \<and>
   PMM_Read (all_skt_data sample_to_numeric small_floats (int_pmm_table [5, - 5] [0, 0]) ''SKT0'')
     = Int64 [5, - 5] \<and>
   PMM_Write (all_skt_data sample_to_numeric small_floats (int_pmm_table [5, - 5] [0, 0]) ''SKT0'')
     = Int64 [0, 0] \<and>
   - (2 ^ 63) \<le> sum_list [5, - 5 :: int] \<and> sum_list [5, - 5 :: int] < 2 ^ 63 \<and>
   - (2 ^ 63) \<le> sum_list [0, 0 :: int] \<and> sum_list [0, 0 :: int] < 2 ^ 63 \<and>
   - (2 ^ 63) \<le> sum_list [5, - 5] + sum_list [0, 0 :: int] \<and>
   sum_list [5, - 5] + sum_list [0, 0 :: int] < 2 ^ 63 \<and>
   \<not> 0 < sum_list [5, - 5] + sum_list [0, 0 :: int] \<and>
   socket_tier_lines ''SKT0'' PMM
     (lines (projr (parse_bandwidth_csv sample_to_datetime sample_to_numeric small_floats
        (Frame (int_pmm_frame [5, - 5] [0, 0])) ''rw''))) = [] \<and>
   socket_tier_lines ''SKT0'' CXL
     (lines (projr (parse_bandwidth_csv sample_to_datetime sample_to_numeric small_floats
        (Frame (int_pmm_frame [5, - 5] [0, 0])) ''rw''))) = [] \<and>
   0 < sum_list [30, 0] + sum_list [20, 5 :: int] \<and>
   socket_tier_lines ''SKT0'' PMM
     (lines (projr (parse_bandwidth_csv sample_to_datetime sample_to_numeric small_floats
        (Frame (int_pmm_frame [30, 0] [20, 5])) ''total''))) \<noteq> []"
proof -
  have skt: "''SKT0'' \<in> set [''SKT0'']" by simp
  define run0 where "run0 = parse_bandwidth_csv sample_to_datetime sample_to_numeric small_floats
      (Frame (int_pmm_frame [5, - 5] [0, 0])) ''rw''"
  define run1 where "run1 = parse_bandwidth_csv sample_to_datetime sample_to_numeric small_floats
      (Frame (int_pmm_frame [30, 0] [20, 5])) ''total''"
  have p0: "parse_bandwidth_csv sample_to_datetime sample_to_numeric small_floats
      (Frame (int_pmm_frame [5, - 5] [0, 0])) ''rw'' = Inr (projr run0)"
    and p1: "parse_bandwidth_csv sample_to_datetime sample_to_numeric small_floats
      (Frame (int_pmm_frame [30, 0] [20, 5])) ''total'' = Inr (projr run1)"
    by (simp_all add: run0_def run1_def int_pmm_frame_chart)
  note t0 = tier_lines_iff_positive_sum [OF p0 int_pmm_frame_normalized skt refl]
  note t1 = tier_lines_iff_positive_sum [OF p1 int_pmm_frame_normalized skt refl]
  have range0: "- (2 ^ 63) \<le> sum_list [5, - 5 :: int]" "sum_list [5, - 5 :: int] < 2 ^ 63"
    "- (2 ^ 63) \<le> sum_list [0, 0 :: int]" "sum_list [0, 0 :: int] < 2 ^ 63"
    "- (2 ^ 63) \<le> sum_list [5, - 5] + sum_list [0, 0 :: int]"
    "sum_list [5, - 5] + sum_list [0, 0 :: int] < 2 ^ 63"
    "\<not> 0 < sum_list [5, - 5] + sum_list [0, 0 :: int]"
    by simp_all
  have range1: "- (2 ^ 63) \<le> sum_list [30, 0 :: int]" "sum_list [30, 0 :: int] < 2 ^ 63"
    "- (2 ^ 63) \<le> sum_list [20, 5 :: int]" "sum_list [20, 5 :: int] < 2 ^ 63"
    "- (2 ^ 63) \<le> sum_list [30, 0] + sum_list [20, 5 :: int]"
    "sum_list [30, 0] + sum_list [20, 5 :: int] < 2 ^ 63"
    "0 < sum_list [30, 0] + sum_list [20, 5 :: int]"
    by simp_all
  from t0 have "(socket_tier_lines ''SKT0'' PMM (lines (projr run0)) \<noteq> []) =
      (0 < sum_list [5, - 5] + sum_list [0, 0 :: int])"
    using range0(1-6) by (simp add: int_pmm_table_series)
  with range0(7) have r0: "socket_tier_lines ''SKT0'' PMM (lines (projr run0)) = []"
    by simp
  from t0 have c0: "socket_tier_lines ''SKT0'' CXL (lines (projr run0)) = []"
    by (simp add: int_pmm_table_series wrap64_def)
  from t1 have "(socket_tier_lines ''SKT0'' PMM (lines (projr run1)) \<noteq> []) =
      (0 < sum_list [30, 0] + sum_list [20, 5 :: int])"
    using range1(1-6) by (simp add: int_pmm_table_series)
  with range1(7) have r1: "socket_tier_lines ''SKT0'' PMM (lines (projr run1)) \<noteq> []"
    by simp
  from range0 range1(7) r0 c0 r1 show ?thesis
    unfolding run0_def run1_def
    by (simp add: int_pmm_frame_normalized int_pmm_table_series)
qed

subsection \<open>Modes other than \<^verbatim>\<open>total\<close>\<close>

lemma plot_socket_not_total:
  assumes "mode \<noteq> ''total''"
  shows "plot_socket fl mode skt data = plot_socket fl ''rw'' skt data"
proof -
  have m: "(mode = ''total'') = False" using assms by blast
  have rw: "(''rw'' = ''total'') = False" by simp
  show ?thesis by (simp only: plot_socket_def m rw if_False)
qed

text \<open>
  C10, as stated: \<^verbatim>\<open>parse_bandwidth_csv\<close> with a mode other than \<^verbatim>\<open>total\<close> equals
  \<^verbatim>\<open>parse_bandwidth_csv\<close> with \<^verbatim>\<open>rw\<close>. Line 54 prints the mode it was given, so the
  two runs differ in what they print.
\<close>

theorem mode_is_echoed:
  "parse_bandwidth_csv sample_to_datetime sample_to_numeric small_floats (Frame scenario_frame) ''split'' \<noteq>
   parse_bandwidth_csv sample_to_datetime sample_to_numeric small_floats (Frame scenario_frame) ''rw''"
  by (simp add: parse_bandwidth_csv_def normalizer_defs scenario_frame_def del: set_filter)

text \<open>
  C10, amended: with a mode other than \<^verbatim>\<open>total\<close> the run fails as it does with
  \<^verbatim>\<open>rw\<close>, or plots the same lines and writes the same file; the two runs differ only
  in the line \<^verbatim>\<open>Mode: ...\<close> printed at line 54, which names the mode given.
\<close>

theorem other_modes_plot_like_rw:
  assumes "mode \<noteq> ''total''"
  shows "parse_bandwidth_csv to_datetime to_numeric fl csv mode =
           map_sum id (\<lambda>c. c\<lparr>stdout := butlast (stdout c) @ [''Mode: '' @ mode]\<rparr>)
             (parse_bandwidth_csv to_datetime to_numeric fl csv ''rw'')"
proof (cases csv)
  case (Frame df)
  show ?thesis
  proof (cases "csv_normalizer to_datetime df")
    case (Inl f)
    with Frame show ?thesis by (simp add: parse_bandwidth_csv_def)
  next
    case (Inr p)
    obtain t sockets where p: "p = (t, sockets)" by (cases p)
    have ps: "plot_socket fl mode = plot_socket fl ''rw''"
      using plot_socket_not_total [OF assms] by (intro ext)
    from Frame Inr p show ?thesis
      by (simp add: parse_bandwidth_csv_def ps)
  qed
qed (simp_all add: parse_bandwidth_csv_def)

theorem other_modes_plot_like_rw_witness:
  "''split'' \<noteq> ''total'' \<and>
   parse_bandwidth_csv sample_to_datetime sample_to_numeric small_floats (Frame scenario_frame) ''split'' =
     Inr \<lparr>stdout = [''Sockets detected: SKT0'', ''Mode: split''],
          lines = [\<lparr>line_x = [Some 36000, Some 36001], line_y = Int64 [100, 200],
                    label = ''SKT0 DRAM Read'', color = ''tab:red'', linestyle = ''-''\<rparr>,
                   \<lparr>line_x = [Some 36000, Some 36001], line_y = Int64 [50, 100],
                    label = ''SKT0 DRAM Write'', color = ''tab:red'', linestyle = ''--''\<rparr>],
          title = ''Memory Bandwidth per Socket'', savefig = ''bandwidth.png''\<rparr>"
proof -
  have ne: "''split'' \<noteq> ''total''" by simp
  have rw: "parse_bandwidth_csv sample_to_datetime sample_to_numeric small_floats (Frame scenario_frame) ''rw'' =
     Inr \<lparr>stdout = [''Sockets detected: SKT0'', ''Mode: rw''],
          lines = [\<lparr>line_x = [Some 36000, Some 36001], line_y = Int64 [100, 200],
                    label = ''SKT0 DRAM Read'', color = ''tab:red'', linestyle = ''-''\<rparr>,
                   \<lparr>line_x = [Some 36000, Some 36001], line_y = Int64 [50, 100],
                    label = ''SKT0 DRAM Write'', color = ''tab:red'', linestyle = ''--''\<rparr>],
          title = ''Memory Bandwidth per Socket'', savefig = ''bandwidth.png''\<rparr>"
    by code_simp
  from other_modes_plot_like_rw [OF ne, of sample_to_datetime sample_to_numeric small_floats
      "Frame scenario_frame"] rw ne
  show ?thesis by simp
qed

end
